theory Spec2Isabelle
  imports Complex_Main
begin

section \<open>JavaScript strings\<close>

text \<open>
  A JavaScript string is modelled as a \<open>string\<close>: a list of code units below 256
  (the Latin-1 range). The functions below are the built-in string operations the
  services call, restricted to that range.
\<close>

definition is_space :: "char \<Rightarrow> bool" where
  \<comment> \<open>the regular expression class \<open>\s\<close>, which is also what \<open>trim()\<close> strips:
      TAB, LF, VT, FF, CR, SPACE and NBSP\<close>
  "is_space c = (c \<in> set [CHR 0x09, CHR 0x0A, CHR 0x0B, CHR 0x0C, CHR 0x0D, CHR 0x20, CHR 0xA0])"

definition trim :: "string \<Rightarrow> string" where
  "trim s = rev (dropWhile is_space (rev (dropWhile is_space s)))"

fun splitLines :: "string \<Rightarrow> string list" where
  \<comment> \<open>\<open>content.split("\n")\<close>: the empty string gives one empty line\<close>
  "splitLines [] = [[]]"
| "splitLines (c # cs) =
     (if c = CHR 0x0A then [] # splitLines cs
      else (case splitLines cs of [] \<Rightarrow> [[c]] | l # ls \<Rightarrow> (c # l) # ls))"

fun splitWhitespaceFrom :: "string \<Rightarrow> bool \<Rightarrow> string \<Rightarrow> string list" where
  \<comment> \<open>the token being read (reversed), whether the last unit was whitespace, the rest\<close>
  "splitWhitespaceFrom cur inws [] = [rev cur]"
| "splitWhitespaceFrom cur inws (c # cs) =
     (if is_space c
      then (if inws then splitWhitespaceFrom [] True cs
            else rev cur # splitWhitespaceFrom [] True cs)
      else splitWhitespaceFrom (c # cur) False cs)"

definition splitWhitespace :: "string \<Rightarrow> string list" where
  \<comment> \<open>\<open>content.split(/\s+/)\<close>: every maximal run of whitespace is one separator;
      leading or trailing whitespace leaves an empty first or last token\<close>
  "splitWhitespace s = splitWhitespaceFrom [] False s"

fun startsWith :: "string \<Rightarrow> string \<Rightarrow> bool" where
  "startsWith s [] = True"
| "startsWith [] (p # ps) = False"
| "startsWith (c # cs) (p # ps) = (c = p \<and> startsWith cs ps)"

fun strIncludes :: "string \<Rightarrow> string \<Rightarrow> bool" where
  \<comment> \<open>\<open>s.includes(needle)\<close>\<close>
  "strIncludes [] needle = (needle = [])"
| "strIncludes (c # cs) needle = (startsWith (c # cs) needle \<or> strIncludes cs needle)"

definition endsWithChar :: "string \<Rightarrow> char \<Rightarrow> bool" where
  \<comment> \<open>\<open>s.endsWith(x)\<close> for a one-unit string \<open>x\<close>\<close>
  "endsWithChar s c = (s \<noteq> [] \<and> last s = c)"

definition toLowerChar :: "char \<Rightarrow> char" where
  "toLowerChar c =
     (let n = (of_char c :: nat)
      in if (65 \<le> n \<and> n \<le> 90) \<or> (192 \<le> n \<and> n \<le> 222 \<and> n \<noteq> 215)
         then char_of (n + 32) else c)"

definition toLowerCase :: "string \<Rightarrow> string" where
  "toLowerCase s = map toLowerChar s"

fun showNat :: "nat \<Rightarrow> string" where
  \<comment> \<open>the decimal numeral a template literal prints for a non-negative integer\<close>
  "showNat n =
     (if n < 10 then [''0123456789'' ! n]
      else showNat (n div 10) @ [''0123456789'' ! (n mod 10)])"

declare showNat.simps [simp del]

fun indexOf :: "'a list \<Rightarrow> 'a \<Rightarrow> int" where
  \<comment> \<open>\<open>Array.prototype.indexOf\<close>: the first position, or -1\<close>
  "indexOf [] x = -1"
| "indexOf (y # ys) x = (if y = x then 0 else (let i = indexOf ys x in if i < 0 then -1 else i + 1))"


section \<open>Taxonomy and result types\<close>

text \<open>
  The two enumerations. Nothing checks at run time that a value typed as one of them is
  a member: the mapping functions look a string up in an object literal, and for a
  string that names a property every object inherits (\<open>constructor\<close>, \<open>toString\<close>, ...)
  the lookup gives that inherited member, which is truthy and is returned as it is. The
  last constructor of each datatype is such a value, named by the property; two of them
  are the same value exactly when the names are the same.
\<close>

definition objectPrototypeKeys :: "string list" where
  \<comment> \<open>the property names every object literal inherits\<close>
  "objectPrototypeKeys =
     [''constructor'', ''__proto__'', ''hasOwnProperty'', ''isPrototypeOf'',
      ''propertyIsEnumerable'', ''toLocaleString'', ''toString'', ''valueOf'',
      ''__defineGetter__'', ''__defineSetter__'', ''__lookupGetter__'', ''__lookupSetter__'']"

datatype CodeReviewType =
  SECURITY | QUALITY | PERFORMANCE | STYLE | BUG | MAINTAINABILITY | InheritedAsType string

datatype SeverityLevel = CRITICAL | HIGH | MEDIUM | LOW | INFO | InheritedAsSeverity string

text \<open>
  \<open>CodeIssue\<close>. An optional property is an \<open>option\<close>: \<open>None\<close> is a property the object
  does not have. The heuristic service builds its issues as object literals with the
  string values of the enumerations (\<open>"security"\<close> is \<open>CodeReviewType.SECURITY\<close>), so one
  record serves both services. The fields \<open>type\<close> and \<open>file\<close> are \<open>issue_type\<close> and \<open>issue_file\<close> here.
\<close>

record CodeIssue =
  issue_type :: CodeReviewType
  severity :: SeverityLevel
  message :: string
  issue_file :: string
  line :: nat
  column :: "nat option"
  description :: "string option"
  suggestion :: "string option"
  ruleId :: "string option"
  source :: "string option"

record Summary =
  totalIssues :: nat
  criticalIssues :: nat
  highIssues :: nat
  mediumIssues :: nat
  lowIssues :: nat

text \<open>
  A JavaScript number that is an integer, or \<open>Infinity\<close> (what \<open>Math.log(0)\<close>
  leads to in the maintainability index).
\<close>

datatype jsnumber = Finite int | PosInfinity

record Metrics =
  linesOfCode :: nat
  complexity :: nat
  maintainabilityIndex :: jsnumber

text \<open>\<open>ThirdPartyAnalysisResult\<close>; its field \<open>issues\<close> is \<open>providerIssues\<close> here.\<close>

record ThirdPartyAnalysisResult =
  providerId :: string
  providerVersion :: string
  analysisId :: string
  processingTime :: nat
  providerIssues :: "CodeIssue list"

record CodeReviewResult =
  summary :: Summary
  issues :: "CodeIssue list"
  metrics :: Metrics
  thirdPartyResults :: "ThirdPartyAnalysisResult list option"


definition countSeverity :: "SeverityLevel \<Rightarrow> CodeIssue list \<Rightarrow> nat" where
  \<comment> \<open>\<open>issues.filter((i) => i.severity === level).length\<close>\<close>
  "countSeverity level xs = length (filter (\<lambda>i. severity i = level) xs)"


section \<open>Regular expressions\<close>

text \<open>
  The fragment of JavaScript regular expressions the heuristic rules use. A class is a
  predicate on code units; repetition is of a class, greedy, giving back units as the
  rest of the pattern needs; the two look-arounds are the negative ones on one class.
  A position in the subject is the unit before it (if any) and the rest.
\<close>

datatype regex =
    Cls "char \<Rightarrow> bool"
  | Seq regex regex
  | Opt regex
  | Rep nat "char \<Rightarrow> bool"
  | NotBehind "char \<Rightarrow> bool"
  | NotAhead "char \<Rightarrow> bool"

type_synonym position = "char option \<times> string"

fun repStates :: "nat \<Rightarrow> (char \<Rightarrow> bool) \<Rightarrow> char option \<Rightarrow> string \<Rightarrow> position list" where
  \<comment> \<open>\<open>[cls]{n,}\<close>: the positions after at least \<open>n\<close> units of the class, longest first\<close>
  "repStates n p prev [] = (if n = 0 then [(prev, [])] else [])"
| "repStates n p prev (c # cs) =
     (if p c then repStates (n - 1) p (Some c) cs else [])
     @ (if n = 0 then [(prev, c # cs)] else [])"

fun rmatch :: "regex \<Rightarrow> position \<Rightarrow> position list" where
  \<comment> \<open>the positions where a match starting at the given position can end, in the
      order the backtracking matcher tries them\<close>
  "rmatch (Cls p) (prev, s) =
     (case s of [] \<Rightarrow> [] | c # cs \<Rightarrow> if p c then [(Some c, cs)] else [])"
| "rmatch (Seq a b) pos = concat (map (rmatch b) (rmatch a pos))"
| "rmatch (Opt a) pos = rmatch a pos @ [pos]"
| "rmatch (Rep n p) (prev, s) = repStates n p prev s"
| "rmatch (NotBehind p) (prev, s) =
     (case prev of None \<Rightarrow> [(prev, s)] | Some c \<Rightarrow> if p c then [] else [(prev, s)])"
| "rmatch (NotAhead p) (prev, s) =
     (case s of [] \<Rightarrow> [(prev, s)] | c # cs \<Rightarrow> if p c then [] else [(prev, s)])"

fun testFrom :: "regex \<Rightarrow> char option \<Rightarrow> string \<Rightarrow> bool" where
  "testFrom r prev [] = (rmatch r (prev, []) \<noteq> [])"
| "testFrom r prev (c # cs) = (rmatch r (prev, c # cs) \<noteq> [] \<or> testFrom r (Some c) cs)"

definition regexTest :: "regex \<Rightarrow> string \<Rightarrow> bool" where
  \<comment> \<open>\<open>pattern.test(s)\<close> on a regular expression object whose \<open>lastIndex\<close> is 0: every
      rule evaluates its regular expression literal anew for each line\<close>
  "regexTest r s = testFrom r None s"

fun seqs :: "regex list \<Rightarrow> regex" where
  "seqs [] = Rep 0 (\<lambda>c. False)"
| "seqs [r] = r"
| "seqs (r # rs) = Seq r (seqs rs)"

definition chr :: "char \<Rightarrow> regex" where
  "chr x = Cls (\<lambda>c. c = x)"

definition litI :: "string \<Rightarrow> regex" where
  \<comment> \<open>literal ASCII text under the flag \<open>i\<close>\<close>
  "litI t = seqs (map (\<lambda>x. Cls (\<lambda>c. toLowerChar c = toLowerChar x)) t)"

definition isDigit :: "char \<Rightarrow> bool" where
  "isDigit c = (let n = (of_char c :: nat) in 48 \<le> n \<and> n \<le> 57)"

definition isAlpha :: "char \<Rightarrow> bool" where
  "isAlpha c = (let n = (of_char c :: nat) in (65 \<le> n \<and> n \<le> 90) \<or> (97 \<le> n \<and> n \<le> 122))"

definition isWord :: "char \<Rightarrow> bool" where
  \<comment> \<open>\<open>\w\<close>\<close>
  "isWord c = (isAlpha c \<or> isDigit c \<or> c = CHR ''_'')"

definition isQuote :: "char \<Rightarrow> bool" where
  \<comment> \<open>the class of the double and the single quote\<close>
  "isQuote c = (c = CHR 0x22 \<or> c = CHR 0x27)"

definition isIdentifierChar :: "char \<Rightarrow> bool" where
  \<comment> \<open>\<open>[a-zA-Z_$]\<close>\<close>
  "isIdentifierChar c = (isAlpha c \<or> c = CHR ''_'' \<or> c = CHR ''$'')"

definition isPasswordChar :: "char \<Rightarrow> bool" where
  \<comment> \<open>the class of the password pattern: \<open>\w\<close>, \<open>\d\<close> and the listed punctuation,
      the backslash and both quotes among it\<close>
  "isPasswordChar c =
     (isWord c \<or> isDigit c \<or> c \<in> set ''@#$%^&*()_+-=[]{}|:;<>?,./''
      \<or> c = CHR 0x5C \<or> c = CHR 0x22 \<or> c = CHR 0x27)"

definition secretPatterns :: "regex list" where
  "secretPatterns =
     [seqs [litI ''password'', Rep 0 is_space, chr CHR ''='', Rep 0 is_space, Cls isQuote,
            Rep 1 isPasswordChar, Cls isQuote],
      seqs [litI ''api'', Opt (Cls (\<lambda>c. c = CHR ''_'' \<or> c = CHR ''-'')), litI ''key'',
            Rep 0 is_space, chr CHR ''='', Rep 0 is_space, Cls isQuote,
            Rep 1 (\<lambda>c. isWord c \<or> isDigit c \<or> c = CHR ''-'' \<or> c = CHR ''_''), Cls isQuote],
      seqs [litI ''secret'', Rep 0 is_space, chr CHR ''='', Rep 0 is_space, Cls isQuote,
            Rep 1 (\<lambda>c. isWord c \<or> isDigit c \<or> c = CHR ''-'' \<or> c = CHR ''_''), Cls isQuote],
      seqs [litI ''token'', Rep 0 is_space, chr CHR ''='', Rep 0 is_space, Cls isQuote,
            Rep 1 (\<lambda>c. isWord c \<or> isDigit c \<or> c = CHR ''-'' \<or> c = CHR ''_'' \<or> c = CHR ''.''),
            Cls isQuote]]"

definition magicNumberPattern :: regex where
  \<comment> \<open>\<open>/(?<![a-zA-Z_$])\d{2,}(?![a-zA-Z_$])/g\<close>\<close>
  "magicNumberPattern = seqs [NotBehind isIdentifierChar, Rep 2 isDigit, NotAhead isIdentifierChar]"


section \<open>Errors and the platform\<close>

datatype error =
    FsError string                \<comment> \<open>what \<open>readFile\<close> or \<open>readdir\<close> throws\<close>
  | UnsupportedFileType string    \<comment> \<open>\<open>Unsupported file type: <extension>\<close>\<close>
  | ProviderError string          \<comment> \<open>what a provider's \<open>analyzeFile\<close> throws\<close>
  | ValidationFailed "string list"
      \<comment> \<open>\<open>Configuration validation failed: <messages joined by ", ">\<close>\<close>
  | TypeError

text \<open>
  What the services take from Node: reading a file, and \<open>path.extname\<close> and
  \<open>path.join\<close>.
\<close>

record platform =
  readFile :: "string \<Rightarrow> error + string"
  extname :: "string \<Rightarrow> string"
  pathJoin :: "string \<Rightarrow> string \<Rightarrow> string"


section \<open>The heuristic service\<close>

definition heuristicIssue ::
  "CodeReviewType \<Rightarrow> SeverityLevel \<Rightarrow> string \<Rightarrow> string \<Rightarrow> nat \<Rightarrow> string \<Rightarrow> string \<Rightarrow> CodeIssue" where
  \<comment> \<open>the object literal every rule pushes: type, severity, message, file, line,
      suggestion and ruleId, and no other property\<close>
  "heuristicIssue t sev msg filePath lineNumber sugg rule =
     \<lparr>issue_type = t, severity = sev, message = msg, issue_file = filePath, line = lineNumber,
      column = None, description = None, suggestion = Some sugg, ruleId = Some rule,
      source = None\<rparr>"

definition jsExtensions :: "string list" where
  "jsExtensions = [''.js'', ''.ts'', ''.jsx'', ''.tsx'']"

definition qualityLine :: "string \<Rightarrow> string \<Rightarrow> nat \<times> string \<Rightarrow> CodeIssue list" where
  \<comment> \<open>the body of the \<open>forEach\<close> of \<open>checkCodeQuality\<close>, for one index and line\<close>
  "qualityLine filePath fileExtension il =
     (let index = fst il; line = snd il; lineNumber = index + 1; trimmedLine = trim line;
          indentLevel = real (length (takeWhile is_space line)) / 2
      in (if length line > 120
          then [heuristicIssue QUALITY LOW
                  (''Line too long ('' @ showNat (length line)
                     @ '' characters). Consider breaking it down.'')
                  filePath lineNumber
                  ''Break long lines into multiple lines for better readability''
                  ''line-length'']
          else [])
       @ (if strIncludes trimmedLine ''TODO'' \<or> strIncludes trimmedLine ''FIXME''
             \<or> strIncludes trimmedLine ''HACK''
          then [heuristicIssue QUALITY MEDIUM
                  ''Found TODO/FIXME/HACK comment. Consider addressing this technical debt.''
                  filePath lineNumber
                  ''Address the technical debt mentioned in the comment''
                  ''technical-debt'']
          else [])
       @ (if indentLevel > 6
          then [heuristicIssue QUALITY HIGH
                  ''Deep nesting detected. Consider refactoring to reduce complexity.''
                  filePath lineNumber
                  ''Extract nested logic into separate functions''
                  ''deep-nesting'']
          else [])
       @ (if fileExtension \<in> set jsExtensions
          then (if strIncludes trimmedLine ''console.log''
                then [heuristicIssue QUALITY LOW
                        ''Console.log statement found. Remove debug statements before production.''
                        filePath lineNumber
                        ''Use proper logging library or remove debug statements''
                        ''console-log'']
                else [])
             @ (if regexTest magicNumberPattern trimmedLine
                   \<and> \<not> strIncludes trimmedLine ''const'' \<and> \<not> strIncludes trimmedLine ''let''
                then [heuristicIssue QUALITY MEDIUM
                        ''Magic number detected. Consider using named constants.''
                        filePath lineNumber
                        ''Define constants for magic numbers to improve readability''
                        ''magic-numbers'']
                else [])
          else []))"

definition checkCodeQuality :: "string \<Rightarrow> string \<Rightarrow> string \<Rightarrow> CodeIssue list" where
  "checkCodeQuality content filePath fileExtension =
     concat (map (qualityLine filePath fileExtension) (enumerate 0 (splitLines content)))"

definition securityLine :: "string \<Rightarrow> string \<Rightarrow> nat \<times> string \<Rightarrow> CodeIssue list" where
  \<comment> \<open>the body of the \<open>forEach\<close> of \<open>checkSecurity\<close>, for one index and line\<close>
  "securityLine filePath fileExtension il =
     (let index = fst il; line = snd il; lineNumber = index + 1; trimmedLine = trim line
      in concat (map (\<lambda>pattern.
            if regexTest pattern trimmedLine
            then [heuristicIssue SECURITY CRITICAL
                    ''Hardcoded secret detected. Secrets should be stored in environment variables.''
                    filePath lineNumber
                    ''Move secrets to environment variables or secure configuration''
                    ''hardcoded-secrets'']
            else []) secretPatterns)
       @ (if strIncludes trimmedLine ''query'' \<and> strIncludes trimmedLine ''+''
          then [heuristicIssue SECURITY HIGH
                  ''Potential SQL injection vulnerability. Use parameterized queries.''
                  filePath lineNumber
                  ''Use parameterized queries or ORM to prevent SQL injection''
                  ''sql-injection'']
          else [])
       @ (if fileExtension \<in> set [''.js'', ''.ts'', ''.jsx'', ''.tsx'', ''.html'']
          then (if strIncludes trimmedLine ''innerHTML'' \<and> \<not> strIncludes trimmedLine ''textContent''
                then [heuristicIssue SECURITY HIGH
                        ''Potential XSS vulnerability. Avoid using innerHTML with user data.''
                        filePath lineNumber
                        ''Use textContent or properly sanitize HTML content''
                        ''xss-vulnerability'']
                else [])
          else [])
       @ (if strIncludes trimmedLine ''Math.random()''
             \<and> (strIncludes trimmedLine ''crypto'' \<or> strIncludes trimmedLine ''password''
                  \<or> strIncludes trimmedLine ''token'')
          then [heuristicIssue SECURITY HIGH
                  ''Math.random() is not cryptographically secure. Use crypto.randomBytes() for security-related randomness.''
                  filePath lineNumber
                  ''Use crypto.randomBytes() or crypto.getRandomValues() for secure randomness''
                  ''insecure-random'']
          else []))"

definition checkSecurity :: "string \<Rightarrow> string \<Rightarrow> string \<Rightarrow> CodeIssue list" where
  "checkSecurity content filePath fileExtension =
     concat (map (securityLine filePath fileExtension) (enumerate 0 (splitLines content)))"

definition lineIncludes :: "string list \<Rightarrow> int \<Rightarrow> string \<Rightarrow> bool" where
  \<comment> \<open>\<open>lines[i]?.includes(needle)\<close>: an index outside the array gives \<open>undefined\<close>\<close>
  "lineIncludes lines i needle =
     (if 0 \<le> i \<and> i < int (length lines) then strIncludes (lines ! nat i) needle else False)"

definition performanceLine :: "string list \<Rightarrow> string \<Rightarrow> string \<Rightarrow> nat \<times> string \<Rightarrow> CodeIssue list" where
  \<comment> \<open>the body of the \<open>forEach\<close> of \<open>checkPerformance\<close>, for one index and line\<close>
  "performanceLine lines filePath fileExtension il =
     (let index = fst il; line = snd il; lineNumber = index + 1; trimmedLine = trim line
      in if fileExtension \<in> set jsExtensions
         then (if strIncludes trimmedLine ''readFileSync'' \<or> strIncludes trimmedLine ''writeFileSync''
               then [heuristicIssue PERFORMANCE MEDIUM
                       ''Synchronous file operation detected. Consider using async alternatives.''
                       filePath lineNumber
                       ''Use readFile/writeFile with promises or async/await''
                       ''sync-file-ops'']
               else [])
            @ (if strIncludes trimmedLine ''for'' \<and> strIncludes trimmedLine ''length''
                  \<and> \<not> strIncludes trimmedLine ''const''
               then [heuristicIssue PERFORMANCE LOW
                       ''Consider caching array length in loops for better performance.''
                       filePath lineNumber
                       ''Store array.length in a variable before the loop''
                       ''inefficient-loop'']
               else [])
            @ (if (strIncludes trimmedLine ''getElementById'' \<or> strIncludes trimmedLine ''querySelector'')
                  \<and> (lineIncludes lines (int index - 1) ''getElementById''
                       \<or> lineIncludes lines (int index + 1) ''getElementById'')
               then [heuristicIssue PERFORMANCE MEDIUM
                       ''Frequent DOM queries detected. Consider caching DOM elements.''
                       filePath lineNumber
                       ''Cache DOM elements in variables to avoid repeated queries''
                       ''frequent-dom-queries'']
               else [])
         else [])"

definition checkPerformance :: "string \<Rightarrow> string \<Rightarrow> string \<Rightarrow> CodeIssue list" where
  "checkPerformance content filePath fileExtension =
     (let lines = splitLines content
      in concat (map (performanceLine lines filePath fileExtension) (enumerate 0 lines)))"

definition styleLine :: "string \<Rightarrow> nat \<times> string \<Rightarrow> CodeIssue list" where
  \<comment> \<open>the body of the \<open>forEach\<close> of \<open>checkCodeStyle\<close>, for one index and line\<close>
  "styleLine filePath il =
     (let index = fst il; line = snd il; lineNumber = index + 1
      in (if strIncludes line [CHR 0x09] \<and> strIncludes line ''  ''
          then [heuristicIssue STYLE LOW
                  ''Mixed indentation detected (tabs and spaces).''
                  filePath lineNumber
                  ''Use consistent indentation (either tabs or spaces)''
                  ''mixed-indentation'']
          else [])
       @ (if endsWithChar line CHR '' '' \<or> endsWithChar line CHR 0x09
          then [heuristicIssue STYLE LOW
                  ''Trailing whitespace detected.''
                  filePath lineNumber
                  ''Remove trailing whitespace''
                  ''trailing-whitespace'']
          else []))"

definition checkCodeStyle :: "string \<Rightarrow> string \<Rightarrow> string \<Rightarrow> CodeIssue list" where
  "checkCodeStyle content filePath fileExtension =
     concat (map (styleLine filePath) (enumerate 0 (splitLines content)))"


section \<open>Metrics and summary (the same code in both services)\<close>

definition complexityKeywords :: "string list" where
  "complexityKeywords = [''if'', ''else'', ''while'', ''for'', ''case'', ''catch'', ''&&'', ''||'', ''?'']"

definition countComplexity :: "string \<Rightarrow> nat" where
  \<comment> \<open>\<open>let complexity = 1\<close>, then \<open>complexity++\<close> for each word of
      \<open>content.split(/\s+/)\<close> that the keyword array includes\<close>
  "countComplexity content =
     foldl (\<lambda>complexity word. if word \<in> set complexityKeywords then complexity + 1 else complexity)
       1 (splitWhitespace content)"

text \<open>
  The maintainability indices are computed in double precision; the model computes
  them in the reals. \<open>Math.log(0)\<close> is \<open>-Infinity\<close>, which makes either index
  \<open>Infinity\<close>; \<open>Math.round\<close> is \<open>round\<close>, the floor of the argument plus one half.
\<close>

definition calculateMetrics :: "string \<Rightarrow> Metrics" where
  "calculateMetrics content =
     (let lines = splitLines content;
          nonEmptyLines = filter (\<lambda>line. length (trim line) > 0) lines;
          loc = length nonEmptyLines;
          cplx = countComplexity content
      in \<lparr>linesOfCode = loc, complexity = cplx,
          maintainabilityIndex =
            (if loc = 0 then PosInfinity
             else Finite (round (max 0 (171 - 5.2 * ln (real loc) - 0.23 * real cplx))))\<rparr>)"

definition generateSummary :: "CodeIssue list \<Rightarrow> Summary" where
  "generateSummary xs =
     \<lparr>totalIssues = length xs,
      criticalIssues = countSeverity CRITICAL xs,
      highIssues = countSeverity HIGH xs,
      mediumIssues = countSeverity MEDIUM xs,
      lowIssues = countSeverity LOW xs\<rparr>"

definition calculateMaintainabilityIndex :: "nat \<Rightarrow> nat \<Rightarrow> nat \<Rightarrow> jsnumber" where
  "calculateMaintainabilityIndex loc cplx issueCount =
     (if loc = 0 then PosInfinity
      else (let base = 171 - 5.2 * ln (real loc) - 0.23 * real cplx - 16.2 * ln (real loc);
                penalty = real issueCount * 2
            in Finite (max 0 (round (base - penalty)))))"

definition heuristicScan :: "string \<Rightarrow> string \<Rightarrow> string \<Rightarrow> CodeIssue list" where
  \<comment> \<open>the four rule sets, in the order \<open>analyzeFile\<close> of the heuristic service pushes them\<close>
  "heuristicScan content filePath fileExtension =
     checkCodeQuality content filePath fileExtension
     @ checkSecurity content filePath fileExtension
     @ checkPerformance content filePath fileExtension
     @ checkCodeStyle content filePath fileExtension"

definition analyzeFileHeuristic :: "platform \<Rightarrow> string \<Rightarrow> error + CodeReviewResult" where
  \<comment> \<open>\<open>analyzeFile\<close> of the heuristic service; its \<open>catch\<close> shows a message and rethrows\<close>
  "analyzeFileHeuristic pf filePath =
     (case readFile pf filePath of
        Inl e \<Rightarrow> Inl e
      | Inr content \<Rightarrow>
          (let fileExtension = toLowerCase (extname pf filePath);
               found = heuristicScan content filePath fileExtension
           in Inr \<lparr>summary = generateSummary found, issues = found,
                   metrics = calculateMetrics content, thirdPartyResults = None\<rparr>))"


section \<open>The heuristic service and its regular expression objects\<close>

text \<open>
  A regular expression object has state: with the flag \<open>g\<close>, \<open>test\<close> starts at
  \<open>lastIndex\<close> and leaves there the end of the match, or 0 when there is none. The
  objects live in a heap, here the list of the objects created so far; a reference is
  the position of its object.
\<close>

record RegExpObject =
  reSource :: regex
  reGlobal :: bool
  lastIndex :: nat

type_synonym heap = "RegExpObject list"

fun execFrom :: "regex \<Rightarrow> char option \<Rightarrow> string \<Rightarrow> nat \<Rightarrow> nat option" where
  \<comment> \<open>the end of the first match that starts at or after the position, whose index is
      the last argument\<close>
  "execFrom r prev [] i =
     (case rmatch r (prev, []) of [] \<Rightarrow> None | (p, rest) # alternatives \<Rightarrow> Some i)"
| "execFrom r prev (c # cs) i =
     (case rmatch r (prev, c # cs) of
        (p, rest) # alternatives \<Rightarrow> Some (i + (length (c # cs) - length rest))
      | [] \<Rightarrow> execFrom r (Some c) cs (i + 1))"

definition testObject :: "RegExpObject \<Rightarrow> string \<Rightarrow> bool \<times> RegExpObject" where
  \<comment> \<open>\<open>test\<close>, and the object after it; without the flag \<open>g\<close> the search starts at 0
      and \<open>lastIndex\<close> stays\<close>
  "testObject obj s =
     (let start = (if reGlobal obj then lastIndex obj else 0)
      in if start > length s
         then (False, if reGlobal obj then obj\<lparr>lastIndex := 0\<rparr> else obj)
         else (case execFrom (reSource obj) (if start = 0 then None else Some (s ! (start - 1)))
                      (drop start s) start of
                 None \<Rightarrow> (False, if reGlobal obj then obj\<lparr>lastIndex := 0\<rparr> else obj)
               | Some e \<Rightarrow> (True, if reGlobal obj then obj\<lparr>lastIndex := e\<rparr> else obj)))"

definition newRegExp :: "regex \<Rightarrow> bool \<Rightarrow> heap \<Rightarrow> nat \<times> heap" where
  \<comment> \<open>evaluating a regular expression literal creates a new object\<close>
  "newRegExp r g h = (length h, h @ [\<lparr>reSource = r, reGlobal = g, lastIndex = 0\<rparr>])"

definition regExpTest :: "nat \<Rightarrow> string \<Rightarrow> heap \<Rightarrow> bool \<times> heap" where
  \<comment> \<open>\<open>test\<close> through a reference; the rules only hold references to objects they
      have created, so the last case does not arise\<close>
  "regExpTest ref s h =
     (if ref < length h
      then (case testObject (h ! ref) s of (b, obj) \<Rightarrow> (b, h[ref := obj]))
      else (False, h))"

fun newRegExps :: "regex list \<Rightarrow> bool \<Rightarrow> heap \<Rightarrow> nat list \<times> heap" where
  \<comment> \<open>an array literal of regular expression literals\<close>
  "newRegExps [] g h = ([], h)"
| "newRegExps (r # rs) g h =
     (case newRegExp r g h of
        (ref, h1) \<Rightarrow> (case newRegExps rs g h1 of (refs, h2) \<Rightarrow> (ref # refs, h2)))"

fun testEach :: "nat list \<Rightarrow> string \<Rightarrow> heap \<Rightarrow> bool list \<times> heap" where
  \<comment> \<open>\<open>test\<close> on each object of an array, in order\<close>
  "testEach [] s h = ([], h)"
| "testEach (ref # refs) s h =
     (case regExpTest ref s h of
        (b, h1) \<Rightarrow> (case testEach refs s h1 of (bs, h2) \<Rightarrow> (b # bs, h2)))"

fun forEachLine ::
  "(heap \<Rightarrow> nat \<times> string \<Rightarrow> CodeIssue list \<times> heap) \<Rightarrow> (nat \<times> string) list
     \<Rightarrow> CodeIssue list \<times> heap \<Rightarrow> CodeIssue list \<times> heap" where
  \<comment> \<open>\<open>lines.forEach\<close> with a body that pushes to \<open>issues\<close> and works on the heap\<close>
  "forEachLine body [] acc = acc"
| "forEachLine body (il # rest) acc =
     (case body (snd acc) il of
        (found, h) \<Rightarrow> forEachLine body rest (fst acc @ found, h))"

definition qualityLineH :: "heap \<Rightarrow> string \<Rightarrow> string \<Rightarrow> nat \<times> string \<Rightarrow> CodeIssue list \<times> heap" where
  \<comment> \<open>the body of the \<open>forEach\<close> of \<open>checkCodeQuality\<close>: for a JavaScript or
      TypeScript file it creates the object \<open>magicNumberPattern\<close> and tests it\<close>
  "qualityLineH h filePath fileExtension il =
     (let index = fst il; line = snd il; lineNumber = index + 1; trimmedLine = trim line;
          indentLevel = real (length (takeWhile is_space line)) / 2;
          general =
            (if length line > 120
             then [heuristicIssue QUALITY LOW
                     (''Line too long ('' @ showNat (length line)
                        @ '' characters). Consider breaking it down.'')
                     filePath lineNumber
                     ''Break long lines into multiple lines for better readability''
                     ''line-length'']
             else [])
          @ (if strIncludes trimmedLine ''TODO'' \<or> strIncludes trimmedLine ''FIXME''
                \<or> strIncludes trimmedLine ''HACK''
             then [heuristicIssue QUALITY MEDIUM
                     ''Found TODO/FIXME/HACK comment. Consider addressing this technical debt.''
                     filePath lineNumber
                     ''Address the technical debt mentioned in the comment''
                     ''technical-debt'']
             else [])
          @ (if indentLevel > 6
             then [heuristicIssue QUALITY HIGH
                     ''Deep nesting detected. Consider refactoring to reduce complexity.''
                     filePath lineNumber
                     ''Extract nested logic into separate functions''
                     ''deep-nesting'']
             else [])
      in if fileExtension \<in> set jsExtensions
         then (case newRegExp magicNumberPattern True h of
                 (magicNumberRef, h1) \<Rightarrow>
                   (case regExpTest magicNumberRef trimmedLine h1 of
                      (matched, h2) \<Rightarrow>
                        (general
                         @ (if strIncludes trimmedLine ''console.log''
                            then [heuristicIssue QUALITY LOW
                                    ''Console.log statement found. Remove debug statements before production.''
                                    filePath lineNumber
                                    ''Use proper logging library or remove debug statements''
                                    ''console-log'']
                            else [])
                         @ (if matched
                               \<and> \<not> strIncludes trimmedLine ''const''
                               \<and> \<not> strIncludes trimmedLine ''let''
                            then [heuristicIssue QUALITY MEDIUM
                                    ''Magic number detected. Consider using named constants.''
                                    filePath lineNumber
                                    ''Define constants for magic numbers to improve readability''
                                    ''magic-numbers'']
                            else []),
                         h2)))
         else (general, h))"

definition securityLineH :: "heap \<Rightarrow> string \<Rightarrow> string \<Rightarrow> nat \<times> string \<Rightarrow> CodeIssue list \<times> heap" where
  \<comment> \<open>the body of the \<open>forEach\<close> of \<open>checkSecurity\<close>: it creates the four objects
      of \<open>secretPatterns\<close> and tests each\<close>
  "securityLineH h filePath fileExtension il =
     (let index = fst il; line = snd il; lineNumber = index + 1; trimmedLine = trim line
      in case newRegExps secretPatterns False h of
           (secretRefs, h1) \<Rightarrow>
             (case testEach secretRefs trimmedLine h1 of
                (matched, h2) \<Rightarrow>
                  (concat (map (\<lambda>m.
                      if m
                      then [heuristicIssue SECURITY CRITICAL
                              ''Hardcoded secret detected. Secrets should be stored in environment variables.''
                              filePath lineNumber
                              ''Move secrets to environment variables or secure configuration''
                              ''hardcoded-secrets'']
                      else []) matched)
                   @ (if strIncludes trimmedLine ''query'' \<and> strIncludes trimmedLine ''+''
                      then [heuristicIssue SECURITY HIGH
                              ''Potential SQL injection vulnerability. Use parameterized queries.''
                              filePath lineNumber
                              ''Use parameterized queries or ORM to prevent SQL injection''
                              ''sql-injection'']
                      else [])
                   @ (if fileExtension \<in> set [''.js'', ''.ts'', ''.jsx'', ''.tsx'', ''.html'']
                      then (if strIncludes trimmedLine ''innerHTML''
                               \<and> \<not> strIncludes trimmedLine ''textContent''
                            then [heuristicIssue SECURITY HIGH
                                    ''Potential XSS vulnerability. Avoid using innerHTML with user data.''
                                    filePath lineNumber
                                    ''Use textContent or properly sanitize HTML content''
                                    ''xss-vulnerability'']
                            else [])
                      else [])
                   @ (if strIncludes trimmedLine ''Math.random()''
                         \<and> (strIncludes trimmedLine ''crypto'' \<or> strIncludes trimmedLine ''password''
                              \<or> strIncludes trimmedLine ''token'')
                      then [heuristicIssue SECURITY HIGH
                              ''Math.random() is not cryptographically secure. Use crypto.randomBytes() for security-related randomness.''
                              filePath lineNumber
                              ''Use crypto.randomBytes() or crypto.getRandomValues() for secure randomness''
                              ''insecure-random'']
                      else []),
                   h2)))"

definition heuristicScanH :: "heap \<Rightarrow> string \<Rightarrow> string \<Rightarrow> string \<Rightarrow> CodeIssue list \<times> heap" where
  \<comment> \<open>the four rule sets in order; the last two create no object\<close>
  "heuristicScanH h content filePath fileExtension =
     (case forEachLine (\<lambda>h'. qualityLineH h' filePath fileExtension)
             (enumerate 0 (splitLines content)) ([], h) of
        (quality, h1) \<Rightarrow>
          (case forEachLine (\<lambda>h'. securityLineH h' filePath fileExtension)
                  (enumerate 0 (splitLines content)) ([], h1) of
             (security, h2) \<Rightarrow>
               (quality @ security
                  @ checkPerformance content filePath fileExtension
                  @ checkCodeStyle content filePath fileExtension,
                h2)))"

definition analyzeFileHeuristicH ::
  "platform \<Rightarrow> heap \<Rightarrow> string \<Rightarrow> (error + CodeReviewResult) \<times> heap" where
  "analyzeFileHeuristicH pf h filePath =
     (case readFile pf filePath of
        Inl e \<Rightarrow> (Inl e, h)
      | Inr content \<Rightarrow>
          (case heuristicScanH h content filePath (toLowerCase (extname pf filePath)) of
             (found, h') \<Rightarrow>
               (Inr \<lparr>summary = generateSummary found, issues = found,
                      metrics = calculateMetrics content, thirdPartyResults = None\<rparr>, h')))"


section \<open>JavaScript maps\<close>

text \<open>
  A \<open>Map\<close> keeps its keys in insertion order: an association list with distinct keys.
  \<open>set\<close> on a key that is present replaces the value in place.
\<close>

fun mapSet :: "('k \<times> 'v) list \<Rightarrow> 'k \<Rightarrow> 'v \<Rightarrow> ('k \<times> 'v) list" where
  "mapSet [] k v = [(k, v)]"
| "mapSet ((k', v') # m) k v = (if k' = k then (k, v) # m else (k', v') # mapSet m k v)"

definition mapGet :: "('k \<times> 'v) list \<Rightarrow> 'k \<Rightarrow> 'v option" where
  "mapGet m k = map_of m k"

definition mapKeys :: "('k \<times> 'v) list \<Rightarrow> 'k list" where
  "mapKeys m = map fst m"


section \<open>The full service\<close>

record SupportedLanguage =
  languageName :: string
  extensions :: "string list"
  aliases :: "string list"

definition languages :: "SupportedLanguage list" where
  "languages =
     [\<lparr>languageName = ''JavaScript'', extensions = [''.js'', ''.jsx''], aliases = [''js'', ''javascript'']\<rparr>,
      \<lparr>languageName = ''TypeScript'', extensions = [''.ts'', ''.tsx''], aliases = [''ts'', ''typescript'']\<rparr>,
      \<lparr>languageName = ''Python'', extensions = [''.py''], aliases = [''py'', ''python'']\<rparr>,
      \<lparr>languageName = ''Java'', extensions = [''.java''], aliases = [''java'']\<rparr>,
      \<lparr>languageName = ''Go'', extensions = [''.go''], aliases = [''go'', ''golang'']\<rparr>,
      \<lparr>languageName = ''Rust'', extensions = [''.rs''], aliases = [''rs'', ''rust'']\<rparr>]"

definition initializeSupportedLanguages :: "(string \<times> SupportedLanguage) list" where
  \<comment> \<open>the map \<open>supportedLanguages\<close> after the constructor has run\<close>
  "initializeSupportedLanguages =
     foldl (\<lambda>m lang. foldl (\<lambda>m' ext. mapSet m' ext lang) m (extensions lang)) [] languages"

text \<open>\<open>AnalysisOptions\<close>; the prefix \<open>ao\<close> keeps the field names apart.\<close>

record AnalysisOptions =
  aoReviewTypes :: "CodeReviewType list option"
  aoSeverityFilter :: "SeverityLevel list option"
  aoExcludeRules :: "string list option"

text \<open>
  A provider, as far as \<open>analyzeFile\<close> of the service uses it: its id, and the outcome
  of its own \<open>analyzeFile\<close> on a path, a content and the analysis options (\<open>Inl\<close> when
  it throws: a timeout, a network or an authentication failure).
\<close>

record Provider =
  provId :: string
  provAnalyzeFile :: "string \<Rightarrow> string \<Rightarrow> AnalysisOptions option \<Rightarrow> error + ThirdPartyAnalysisResult"

text \<open>
  An entry of the \<open>issues\<close> array of the model's reply: the properties the prompt asks
  for, and the further properties of an issue that the entry may carry and the spread
  \<open>...issue\<close> copies.
\<close>

record RawAIIssue =
  rawType :: string
  rawSeverity :: string
  rawMessage :: string
  rawLine :: nat
  rawColumn :: "nat option"
  rawDescription :: "string option"
  rawSuggestion :: "string option"
  rawRuleId :: "string option"

text \<open>
  The state of the service: the completion capability behind \<open>apiHandler\<close>, as the
  array of issues parsed from its reply to a language name and a content (\<open>None\<close> when
  the stream throws, the reply is not JSON, or it has no array \<open>issues\<close>), and the map of
  registered providers.
\<close>

record Service =
  aiReply :: "string \<Rightarrow> string \<Rightarrow> RawAIIssue list option"
  thirdPartyProviders :: "(string \<times> Provider) list"

definition registerProvider :: "Service \<Rightarrow> Provider \<Rightarrow> Service" where
  "registerProvider svc provider =
     svc\<lparr>thirdPartyProviders := mapSet (thirdPartyProviders svc) (provId provider) provider\<rparr>"

definition mapLegacyType :: "string \<Rightarrow> CodeReviewType" where
  "mapLegacyType legacyType =
     (if legacyType = ''quality'' then QUALITY
      else if legacyType = ''security'' then SECURITY
      else if legacyType = ''performance'' then PERFORMANCE
      else if legacyType = ''style'' then STYLE
      else if legacyType = ''bug'' then BUG
      else if legacyType \<in> set objectPrototypeKeys then InheritedAsType legacyType
      else QUALITY)"

definition mapLegacySeverity :: "string \<Rightarrow> SeverityLevel" where
  "mapLegacySeverity legacySeverity =
     (if legacySeverity = ''low'' then LOW
      else if legacySeverity = ''medium'' then MEDIUM
      else if legacySeverity = ''high'' then HIGH
      else if legacySeverity = ''critical'' then CRITICAL
      else if legacySeverity \<in> set objectPrototypeKeys then InheritedAsSeverity legacySeverity
      else MEDIUM)"

definition performAIAnalysis :: "Service \<Rightarrow> string \<Rightarrow> string \<Rightarrow> SupportedLanguage \<Rightarrow> CodeIssue list" where
  \<comment> \<open>never throws: every failure is caught and gives the empty list; an issue is the
      entry of the reply with \<open>type\<close>, \<open>severity\<close>, \<open>file\<close> and \<open>source\<close> set\<close>
  "performAIAnalysis svc content filePath language =
     (case aiReply svc (languageName language) content of
        None \<Rightarrow> []
      | Some raws \<Rightarrow>
          map (\<lambda>issue. \<lparr>issue_type = mapLegacyType (rawType issue),
                         severity = mapLegacySeverity (rawSeverity issue),
                         message = rawMessage issue, issue_file = filePath, line = rawLine issue,
                         column = rawColumn issue, description = rawDescription issue,
                         suggestion = rawSuggestion issue, ruleId = rawRuleId issue,
                         source = Some ''AI''\<rparr>) raws)"

record ReviewOptions =
  enableThirdParty :: "bool option"
  providers :: "string list option"
  analysisOptions :: "AnalysisOptions option"

fun runProviders ::
  "Service \<Rightarrow> string \<Rightarrow> string \<Rightarrow> AnalysisOptions option \<Rightarrow> string list
     \<Rightarrow> CodeIssue list \<times> ThirdPartyAnalysisResult list
     \<Rightarrow> CodeIssue list \<times> ThirdPartyAnalysisResult list" where
  \<comment> \<open>the loop \<open>for (const providerId of providersToUse)\<close> on the arrays \<open>issues\<close>
      and \<open>thirdPartyResults\<close>; the \<open>catch\<close> only writes a warning to the console\<close>
  "runProviders svc filePath content ao [] acc = acc"
| "runProviders svc filePath content ao (pid # rest) acc =
     (case mapGet (thirdPartyProviders svc) pid of
        None \<Rightarrow> runProviders svc filePath content ao rest acc
      | Some provider \<Rightarrow>
          (case provAnalyzeFile provider filePath content ao of
             Inr result \<Rightarrow>
               runProviders svc filePath content ao rest
                 (fst acc @ providerIssues result, snd acc @ [result])
           | Inl err \<Rightarrow> runProviders svc filePath content ao rest acc))"

definition providersToUse :: "Service \<Rightarrow> ReviewOptions \<Rightarrow> string list" where
  \<comment> \<open>\<open>options.providers || Array.from(this.thirdPartyProviders.keys())\<close>; an array,
      also the empty one, is truthy\<close>
  "providersToUse svc opts =
     (case providers opts of Some ps \<Rightarrow> ps | None \<Rightarrow> mapKeys (thirdPartyProviders svc))"

definition thirdPartyEnabled :: "ReviewOptions option \<Rightarrow> bool" where
  \<comment> \<open>\<open>options?.enableThirdParty\<close> as a condition\<close>
  "thirdPartyEnabled options =
     (case options of None \<Rightarrow> False
      | Some opts \<Rightarrow> (case enableThirdParty opts of None \<Rightarrow> False | Some b \<Rightarrow> b))"

definition analyzeFile ::
  "platform \<Rightarrow> Service \<Rightarrow> string \<Rightarrow> ReviewOptions option \<Rightarrow> error + CodeReviewResult" where
  \<comment> \<open>the outer \<open>catch\<close> shows the error message and rethrows\<close>
  "analyzeFile pf svc filePath options =
     (case readFile pf filePath of
        Inl e \<Rightarrow> Inl e
      | Inr content \<Rightarrow>
          (let fileExtension = toLowerCase (extname pf filePath)
           in case mapGet initializeSupportedLanguages fileExtension of
                None \<Rightarrow> Inl (UnsupportedFileType fileExtension)
              | Some language \<Rightarrow>
                  (let aiIssues = performAIAnalysis svc content filePath language;
                       acc = (if thirdPartyEnabled options
                              then (case options of
                                      None \<Rightarrow> (aiIssues, [])
                                    | Some opts \<Rightarrow>
                                        runProviders svc filePath content (analysisOptions opts)
                                          (providersToUse svc opts) (aiIssues, []))
                              else (aiIssues, []))
                   in Inr \<lparr>summary = generateSummary (fst acc), issues = fst acc,
                           metrics = calculateMetrics content,
                           thirdPartyResults = Some (snd acc)\<rparr>)))"


section \<open>Directory scans\<close>

text \<open>
  The tree under the scanned directory, as \<open>readdir\<close> with file types shows it: a file,
  or a directory with its entries (\<open>None\<close> when reading it throws).
\<close>

datatype fsentry = File string | Directory string "fsentry list option"

definition skippedDirectories :: "string list" where
  "skippedDirectories = [''node_modules'', ''.git'', ''dist'', ''build'', ''.vscode'']"

definition supportedExtensions :: "string list" where
  \<comment> \<open>the array of that name in \<open>findFiles\<close>\<close>
  "supportedExtensions =
     [''.js'', ''.ts'', ''.jsx'', ''.tsx'', ''.py'', ''.java'', ''.cpp'', ''.c'', ''.go'', ''.rs'']"

fun scan :: "platform \<Rightarrow> string \<Rightarrow> fsentry list option \<Rightarrow> error + string list"
  and scanEntries :: "platform \<Rightarrow> string \<Rightarrow> fsentry list \<Rightarrow> error + string list"
  and scanEntry :: "platform \<Rightarrow> string \<Rightarrow> fsentry \<Rightarrow> error + string list" where
  "scan pf currentPath None = Inl (FsError currentPath)"
| "scan pf currentPath (Some entries) = scanEntries pf currentPath entries"
| "scanEntries pf currentPath [] = Inr []"
| "scanEntries pf currentPath (entry # rest) =
     (case scanEntry pf currentPath entry of
        Inl e \<Rightarrow> Inl e
      | Inr found \<Rightarrow>
          (case scanEntries pf currentPath rest of
             Inl e \<Rightarrow> Inl e
           | Inr others \<Rightarrow> Inr (found @ others)))"
| "scanEntry pf currentPath (Directory name entries) =
     (if name \<notin> set skippedDirectories
      then scan pf (pathJoin pf currentPath name) entries
      else Inr [])"
| "scanEntry pf currentPath (File name) =
     (let extension = toLowerCase (extname pf name)
      in if extension \<in> set supportedExtensions
         then Inr [pathJoin pf currentPath name] else Inr [])"

definition findFiles :: "platform \<Rightarrow> string \<Rightarrow> fsentry list option \<Rightarrow> error + string list" where
  \<comment> \<open>the paths pushed to \<open>files\<close>; the parameter \<open>patterns\<close> is not used\<close>
  "findFiles pf dirPath tree = scan pf dirPath tree"

type_synonym totals = "CodeIssue list \<times> ThirdPartyAnalysisResult list \<times> nat \<times> nat"

definition addFile :: "platform \<Rightarrow> Service \<Rightarrow> ReviewOptions option \<Rightarrow> totals \<Rightarrow> string \<Rightarrow> totals" where
  \<comment> \<open>the body of the loop of \<open>analyzeDirectory\<close> on \<open>allIssues\<close>,
      \<open>allThirdPartyResults\<close>, \<open>totalLoc\<close> and \<open>totalComplexity\<close>; the \<open>catch\<close> only
      writes a warning to the console\<close>
  "addFile pf svc options acc filePath =
     (case acc of (allIssues, allThirdPartyResults, totalLoc, totalComplexity) \<Rightarrow>
        (case analyzeFile pf svc filePath options of
           Inl e \<Rightarrow> acc
         | Inr result \<Rightarrow>
             (allIssues @ issues result,
              allThirdPartyResults
                @ (case thirdPartyResults result of None \<Rightarrow> [] | Some rs \<Rightarrow> rs),
              totalLoc + linesOfCode (metrics result),
              totalComplexity + complexity (metrics result))))"

definition analyzeFiles :: "platform \<Rightarrow> Service \<Rightarrow> ReviewOptions option \<Rightarrow> string list \<Rightarrow> totals" where
  "analyzeFiles pf svc options files = foldl (addFile pf svc options) ([], [], 0, 0) files"

definition analyzeDirectory ::
  "platform \<Rightarrow> Service \<Rightarrow> fsentry list option \<Rightarrow> string \<Rightarrow> ReviewOptions option
     \<Rightarrow> error + CodeReviewResult" where
  "analyzeDirectory pf svc tree dirPath options =
     (case findFiles pf dirPath tree of
        Inl e \<Rightarrow> Inl e
      | Inr files \<Rightarrow>
          (case analyzeFiles pf svc options files of
             (allIssues, allThirdPartyResults, totalLoc, totalComplexity) \<Rightarrow>
               Inr \<lparr>summary = generateSummary allIssues, issues = allIssues,
                     metrics = \<lparr>linesOfCode = totalLoc, complexity = totalComplexity,
                                maintainabilityIndex =
                                  calculateMaintainabilityIndex totalLoc totalComplexity
                                    (length allIssues)\<rparr>,
                     thirdPartyResults = Some allThirdPartyResults\<rparr>))"


section \<open>What a run shows and logs\<close>

text \<open>
  The calls of \<open>vscode.window.showErrorMessage\<close> and of \<open>console.warn\<close> that a run of
  the full service makes, in order: the error message the \<open>catch\<close> of \<open>analyzeFile\<close>
  or of \<open>analyzeDirectory\<close> shows before it rethrows, the warning for a provider that
  threw, and the warning of the directory loop for a file whose analysis threw. (The
  calls of \<open>console.error\<close> in the AI analysis are not among them.)
\<close>

datatype effect =
    ShowFileError error            \<comment> \<open>\<open>showErrorMessage\<close> in \<open>analyzeFile\<close>\<close>
  | ShowDirectoryError error       \<comment> \<open>\<open>showErrorMessage\<close> in \<open>analyzeDirectory\<close>\<close>
  | WarnProvider string error      \<comment> \<open>\<open>console.warn\<close> for a provider id\<close>
  | WarnFile string error          \<comment> \<open>\<open>console.warn\<close> for a file path\<close>

fun runProvidersEffects ::
  "Service \<Rightarrow> string \<Rightarrow> string \<Rightarrow> AnalysisOptions option \<Rightarrow> string list \<Rightarrow> effect list" where
  "runProvidersEffects svc filePath content ao [] = []"
| "runProvidersEffects svc filePath content ao (pid # rest) =
     (case mapGet (thirdPartyProviders svc) pid of
        None \<Rightarrow> runProvidersEffects svc filePath content ao rest
      | Some provider \<Rightarrow>
          (case provAnalyzeFile provider filePath content ao of
             Inr result \<Rightarrow> runProvidersEffects svc filePath content ao rest
           | Inl err \<Rightarrow> WarnProvider pid err # runProvidersEffects svc filePath content ao rest))"

definition analyzeFileEffects ::
  "platform \<Rightarrow> Service \<Rightarrow> string \<Rightarrow> ReviewOptions option \<Rightarrow> effect list" where
  "analyzeFileEffects pf svc filePath options =
     (case readFile pf filePath of
        Inl e \<Rightarrow> [ShowFileError e]
      | Inr content \<Rightarrow>
          (let fileExtension = toLowerCase (extname pf filePath)
           in case mapGet initializeSupportedLanguages fileExtension of
                None \<Rightarrow> [ShowFileError (UnsupportedFileType fileExtension)]
              | Some language \<Rightarrow>
                  (if thirdPartyEnabled options
                   then (case options of
                           None \<Rightarrow> []
                         | Some opts \<Rightarrow>
                             runProvidersEffects svc filePath content (analysisOptions opts)
                               (providersToUse svc opts))
                   else [])))"

definition addFileEffects ::
  "platform \<Rightarrow> Service \<Rightarrow> ReviewOptions option \<Rightarrow> string \<Rightarrow> effect list" where
  \<comment> \<open>one round of the loop of \<open>analyzeDirectory\<close>\<close>
  "addFileEffects pf svc options filePath =
     analyzeFileEffects pf svc filePath options
     @ (case analyzeFile pf svc filePath options of
          Inl e \<Rightarrow> [WarnFile filePath e]
        | Inr result \<Rightarrow> [])"

definition analyzeDirectoryEffects ::
  "platform \<Rightarrow> Service \<Rightarrow> fsentry list option \<Rightarrow> string \<Rightarrow> ReviewOptions option \<Rightarrow> effect list" where
  "analyzeDirectoryEffects pf svc tree dirPath options =
     (case findFiles pf dirPath tree of
        Inl e \<Rightarrow> [ShowDirectoryError e]
      | Inr files \<Rightarrow> concat (map (addFileEffects pf svc options) files))"


section \<open>Provider configuration\<close>

record ThirdPartyProviderConfig =
  apiKey :: "string option"
  endpoint :: "string option"
  timeout :: "int option"
  retryAttempts :: "int option"
  customHeaders :: "(string \<times> string) list option"
  rateLimits :: "(nat \<times> nat) option"

text \<open>
  \<open>ProviderConfigTemplate\<close>, with the fields validation reads; the numbers of a
  configuration are taken to be integers.
\<close>

record ProviderConfigTemplate =
  templateName :: string
  requiredConfig :: "string list"
  optionalConfig :: "string list"

definition PROVIDER_TEMPLATES :: "(string \<times> ProviderConfigTemplate) list" where
  "PROVIDER_TEMPLATES =
     [(''sonarqube'', \<lparr>templateName = ''SonarQube'', requiredConfig = [''endpoint'', ''apiKey''],
         optionalConfig = [''timeout'', ''retryAttempts'', ''customHeaders'', ''projectKey'']\<rparr>),
      (''codeclimate'', \<lparr>templateName = ''CodeClimate'', requiredConfig = [''apiKey''],
         optionalConfig = [''timeout'', ''retryAttempts'', ''repoId'']\<rparr>),
      (''eslint'', \<lparr>templateName = ''ESLint'', requiredConfig = [],
         optionalConfig = [''configPath'', ''rulesDir'', ''extensions'']\<rparr>),
      (''semgrep'', \<lparr>templateName = ''Semgrep'', requiredConfig = [''apiKey''],
         optionalConfig = [''timeout'', ''rules'', ''configPath'']\<rparr>),
      (''codeql'', \<lparr>templateName = ''CodeQL'', requiredConfig = [''apiKey'', ''endpoint''],
         optionalConfig = [''timeout'', ''database'', ''queries'']\<rparr>)]"

datatype 'a lookup = Own 'a | Inherited | Undefined

definition templateLookup :: "string \<Rightarrow> ProviderConfigTemplate lookup" where
  \<comment> \<open>\<open>PROVIDER_TEMPLATES[providerId]\<close>: a template, an inherited property (which is
      truthy and has no \<open>requiredConfig\<close>), or \<open>undefined\<close>\<close>
  "templateLookup pid =
     (case map_of PROVIDER_TEMPLATES pid of
        Some template \<Rightarrow> Own template
      | None \<Rightarrow> if pid \<in> set objectPrototypeKeys then Inherited else Undefined)"

definition configTruthy :: "ThirdPartyProviderConfig \<Rightarrow> string \<Rightarrow> bool" where
  \<comment> \<open>\<open>(required in config) && config[required]\<close> as a condition: the property is
      there and is neither the empty string nor 0\<close>
  "configTruthy config key =
     (if key = ''apiKey'' then (case apiKey config of None \<Rightarrow> False | Some v \<Rightarrow> v \<noteq> [])
      else if key = ''endpoint'' then (case endpoint config of None \<Rightarrow> False | Some v \<Rightarrow> v \<noteq> [])
      else if key = ''timeout'' then (case timeout config of None \<Rightarrow> False | Some v \<Rightarrow> v \<noteq> 0)
      else if key = ''retryAttempts''
        then (case retryAttempts config of None \<Rightarrow> False | Some v \<Rightarrow> v \<noteq> 0)
      else if key = ''customHeaders'' then customHeaders config \<noteq> None
      else if key = ''rateLimits'' then rateLimits config \<noteq> None
      else False)"

record Validation =
  isValid :: bool
  errors :: "string list"

definition validateProviderConfig ::
  "(string \<Rightarrow> bool) \<Rightarrow> string \<Rightarrow> ThirdPartyProviderConfig \<Rightarrow> error + Validation" where
  \<comment> \<open>the first argument tells whether \<open>new URL(s)\<close> returns (rather than throws)\<close>
  "validateProviderConfig urlParses pid config =
     (case templateLookup pid of
        Undefined \<Rightarrow> Inr \<lparr>isValid = False, errors = [''Unknown provider: '' @ pid]\<rparr>
      | Inherited \<Rightarrow> Inl TypeError
      | Own template \<Rightarrow>
          (let errs =
                 concat (map (\<lambda>required.
                    if \<not> configTruthy config required
                    then [''Missing required configuration: '' @ required] else [])
                  (requiredConfig template))
               @ (case endpoint config of
                    None \<Rightarrow> []
                  | Some e \<Rightarrow> if e \<noteq> [] \<and> \<not> urlParses e
                              then [''Invalid endpoint URL format''] else [])
               @ (case timeout config of
                    None \<Rightarrow> []
                  | Some t \<Rightarrow> if t \<noteq> 0 \<and> (t < 1000 \<or> t > 300000)
                              then [''Timeout must be between 1000ms and 300000ms''] else [])
               @ (case retryAttempts config of
                    None \<Rightarrow> []
                  | Some n \<Rightarrow> if n \<noteq> 0 \<and> (n < 0 \<or> n > 10)
                              then [''Retry attempts must be between 0 and 10''] else [])
           in Inr \<lparr>isValid = (length errs = 0), errors = errs\<rparr>))"

text \<open>
  The state of \<open>ThirdPartyProvidersSettingsManager\<close>: the map \<open>providers\<close> and the set
  \<open>enabledProviders\<close>. \<open>saveToSettings\<close> does nothing.
\<close>

record SettingsManager =
  mgrProviders :: "(string \<times> ThirdPartyProviderConfig) list"
  mgrEnabledProviders :: "string list"

definition setProviderConfig ::
  "(string \<Rightarrow> bool) \<Rightarrow> SettingsManager \<Rightarrow> string \<Rightarrow> ThirdPartyProviderConfig
     \<Rightarrow> (error + unit) \<times> SettingsManager" where
  \<comment> \<open>the outcome, and the state of the manager after the call\<close>
  "setProviderConfig urlParses mgr pid config =
     (case validateProviderConfig urlParses pid config of
        Inl e \<Rightarrow> (Inl e, mgr)
      | Inr validation \<Rightarrow>
          if \<not> isValid validation
          then (Inl (ValidationFailed (errors validation)), mgr)
          else (Inr (), mgr\<lparr>mgrProviders := mapSet (mgrProviders mgr) pid config\<rparr>))"


section \<open>The loops as lists\<close>

text \<open>
  What the two loops collect, written as lists: the results of the providers that are
  registered and do not throw, and the results of the files whose analysis does not
  throw. The theorems relate the loops to them.
\<close>

definition providerOutcome ::
  "Service \<Rightarrow> string \<Rightarrow> string \<Rightarrow> AnalysisOptions option \<Rightarrow> string \<Rightarrow> ThirdPartyAnalysisResult option" where
  "providerOutcome svc filePath content ao pid =
     (case mapGet (thirdPartyProviders svc) pid of
        None \<Rightarrow> None
      | Some provider \<Rightarrow>
          (case provAnalyzeFile provider filePath content ao of
             Inr result \<Rightarrow> Some result
           | Inl err \<Rightarrow> None))"

definition successfulResults ::
  "Service \<Rightarrow> string \<Rightarrow> string \<Rightarrow> AnalysisOptions option \<Rightarrow> string list \<Rightarrow> ThirdPartyAnalysisResult list" where
  "successfulResults svc filePath content ao pids =
     concat (map (\<lambda>pid. case providerOutcome svc filePath content ao pid of
                            None \<Rightarrow> [] | Some result \<Rightarrow> [result]) pids)"

definition usedResults ::
  "Service \<Rightarrow> string \<Rightarrow> string \<Rightarrow> ReviewOptions option \<Rightarrow> ThirdPartyAnalysisResult list" where
  "usedResults svc filePath content options =
     (case options of
        None \<Rightarrow> []
      | Some opts \<Rightarrow>
          if enableThirdParty opts = Some True
          then successfulResults svc filePath content (analysisOptions opts) (providersToUse svc opts)
          else [])"

definition fileResults ::
  "platform \<Rightarrow> Service \<Rightarrow> ReviewOptions option \<Rightarrow> string list \<Rightarrow> CodeReviewResult list" where
  "fileResults pf svc options files =
     concat (map (\<lambda>f. case analyzeFile pf svc f options of Inl e \<Rightarrow> [] | Inr r \<Rightarrow> [r]) files)"


section \<open>Example inputs\<close>

definition apiKeyLine :: string where
  \<comment> \<open>the line \<open>const apiKey = "sk-1234567890"\<close>\<close>
  "apiKeyLine = ''const apiKey = '' @ [CHR 0x22] @ ''sk-1234567890'' @ [CHR 0x22]"

definition posixExtname :: "string \<Rightarrow> string" where
  \<comment> \<open>\<open>path.extname\<close> on a POSIX path that does not end in a slash: from the last dot
      of the last component, unless that component has no dot or only a leading one\<close>
  "posixExtname p =
     (let base = rev (takeWhile (\<lambda>c. c \<noteq> CHR ''/'') (rev p));
          suffix = rev (takeWhile (\<lambda>c. c \<noteq> CHR ''.'') (rev base))
      in if length suffix + 1 < length base then CHR ''.'' # suffix else [])"

definition singleFilePlatform :: "string \<Rightarrow> string \<Rightarrow> platform" where
  \<comment> \<open>a platform on which exactly one file can be read\<close>
  "singleFilePlatform path content =
     \<lparr>readFile = (\<lambda>p. if p = path then Inr content else Inl (FsError ''ENOENT'')),
      extname = posixExtname,
      pathJoin = (\<lambda>a b. a @ ''/'' @ b)\<rparr>"


definition twoMagicLines :: string where
  "twoMagicLines = ''x = 42'' @ [CHR 0x0A] @ ''y = 4711''"

definition infoIssue :: CodeIssue where
  "infoIssue =
     \<lparr>issue_type = QUALITY, severity = INFO, message = ''note'', issue_file = ''app.ts'', line = 1,
      column = None, description = None, suggestion = None, ruleId = None,
      source = Some ''notes''\<rparr>"

definition infoProvider :: Provider where
  \<comment> \<open>a registered provider that reports one issue of severity \<open>info\<close>\<close>
  "infoProvider =
     \<lparr>provId = ''notes'',
      provAnalyzeFile = (\<lambda>filePath content ao.
         Inr \<lparr>providerId = ''notes'', providerVersion = ''1.0.0'', analysisId = ''analysis_1'',
              processingTime = 0, providerIssues = [infoIssue]\<rparr>)\<rparr>"

definition vendorIssue :: "string \<Rightarrow> CodeIssue" where
  "vendorIssue src =
     \<lparr>issue_type = BUG, severity = HIGH, message = ''finding'', issue_file = ''app.ts'', line = 1,
      column = None, description = None, suggestion = None, ruleId = None, source = Some src\<rparr>"

definition succeedingProvider :: "string \<Rightarrow> Provider" where
  "succeedingProvider pid =
     \<lparr>provId = pid,
      provAnalyzeFile = (\<lambda>filePath content ao.
         Inr \<lparr>providerId = pid, providerVersion = ''1.0.0'', analysisId = ''analysis_1'',
              processingTime = 0, providerIssues = [vendorIssue pid]\<rparr>)\<rparr>"

definition timingOutProvider :: "string \<Rightarrow> Provider" where
  "timingOutProvider pid =
     \<lparr>provId = pid, provAnalyzeFile = (\<lambda>filePath content ao. Inl (ProviderError ''timeout''))\<rparr>"

definition threeProviderService :: Service where
  "threeProviderService =
     registerProvider
       (registerProvider
          (registerProvider
             \<lparr>aiReply = (\<lambda>language content.
                  Some [\<lparr>rawType = ''bug'', rawSeverity = ''low'', rawMessage = ''unused value'',
                         rawLine = 1, rawColumn = None, rawDescription = None,
                         rawSuggestion = None, rawRuleId = None\<rparr>]),
              thirdPartyProviders = []\<rparr>
             (succeedingProvider ''alpha''))
          (timingOutProvider ''beta''))
       (succeedingProvider ''gamma'')"

definition allProviders :: ReviewOptions where
  "allProviders = \<lparr>enableThirdParty = Some True, providers = None, analysisOptions = None\<rparr>"

definition silentService :: Service where
  "silentService = \<lparr>aiReply = (\<lambda>language content. None), thirdPartyProviders = []\<rparr>"

definition reversedProviders :: ReviewOptions where
  "reversedProviders =
     \<lparr>enableThirdParty = Some True, providers = Some [''gamma'', ''alpha''], analysisOptions = None\<rparr>"


definition mixedResult :: CodeReviewResult where
  \<comment> \<open>a bug of severity high, a bug of severity low and a quality issue of severity medium\<close>
  "mixedResult =
     \<lparr>summary = generateSummary
        [vendorIssue ''alpha'', (vendorIssue ''beta'')\<lparr>severity := LOW\<rparr>,
         (vendorIssue ''gamma'')\<lparr>issue_type := QUALITY, severity := MEDIUM\<rparr>],
      issues =
        [vendorIssue ''alpha'', (vendorIssue ''beta'')\<lparr>severity := LOW\<rparr>,
         (vendorIssue ''gamma'')\<lparr>issue_type := QUALITY, severity := MEDIUM\<rparr>],
      metrics = calculateMetrics ''let x'', thirdPartyResults = Some []\<rparr>"

definition threeLines :: string where
  "threeLines = ''a'' @ [CHR 0x0A] @ ''b'' @ [CHR 0x0A] @ ''c''"


definition absoluteUrl :: "string \<Rightarrow> bool" where
  \<comment> \<open>a stand-in for the URL parser in examples: a scheme (a letter, then letters,
      digits, \<open>+\<close>, \<open>-\<close> or \<open>.\<close>) followed by a colon\<close>
  "absoluteUrl s =
     (let isScheme = (\<lambda>c. isAlpha c \<or> isDigit c \<or> c \<in> set ''+-.'');
          scheme = takeWhile isScheme s;
          rest = dropWhile isScheme s
      in scheme \<noteq> [] \<and> isAlpha (hd scheme) \<and> rest \<noteq> [] \<and> hd rest = CHR '':'')"

definition emptyManager :: SettingsManager where
  "emptyManager = \<lparr>mgrProviders = [], mgrEnabledProviders = []\<rparr>"

definition notAUrlConfig :: ThirdPartyProviderConfig where
  \<comment> \<open>\<open>{endpoint: "not a url"}\<close>\<close>
  "notAUrlConfig =
     \<lparr>apiKey = None, endpoint = Some ''not a url'', timeout = None, retryAttempts = None,
      customHeaders = None, rateLimits = None\<rparr>"


section \<open>The specification's count of occurrences\<close>

fun occurrences :: "string \<Rightarrow> string \<Rightarrow> nat" where
  \<comment> \<open>the number of positions of the content at which the keyword occurs\<close>
  "occurrences keyword [] = (if keyword = [] then 1 else 0)"
| "occurrences keyword (c # cs) =
     (if startsWith (c # cs) keyword then 1 else 0) + occurrences keyword cs"

definition specComplexity :: "string \<Rightarrow> nat" where
  \<comment> \<open>1 plus the number of occurrences in the content of the nine keywords and operators\<close>
  "specComplexity content = 1 + sum_list (map (\<lambda>k. occurrences k content) complexityKeywords)"


section \<open>The specification's aggregate maintainability index\<close>

definition specAggregateIndex :: "nat \<Rightarrow> nat \<Rightarrow> nat \<Rightarrow> int" where
  \<comment> \<open>the per-file formula on the totals, reduced by two points per issue\<close>
  "specAggregateIndex L C N =
     max 0 (round (171 - 5.2 * ln (real L) - 0.23 * real C) - 2 * int N)"


section \<open>The review tool: filtering and the reported summary\<close>

text \<open>
  \<open>mapLegacyIssueType\<close> and \<open>mapLegacySeverity\<close> of the tool: \<open>mapping[key] || default\<close>,
  a lookup in an object literal that also finds the inherited properties.
\<close>

definition mapLegacyIssueType :: "string \<Rightarrow> CodeReviewType" where
  "mapLegacyIssueType legacyType =
     (if legacyType = ''quality'' then QUALITY
      else if legacyType = ''security'' then SECURITY
      else if legacyType = ''performance'' then PERFORMANCE
      else if legacyType = ''style'' then STYLE
      else if legacyType = ''bug'' then BUG
      else if legacyType = ''maintainability'' then MAINTAINABILITY
      else if legacyType \<in> set objectPrototypeKeys then InheritedAsType legacyType
      else QUALITY)"

definition mapLegacySeverityTool :: "string \<Rightarrow> SeverityLevel" where
  "mapLegacySeverityTool legacySeverity =
     (if legacySeverity = ''critical'' then CRITICAL
      else if legacySeverity = ''high'' then HIGH
      else if legacySeverity = ''medium'' then MEDIUM
      else if legacySeverity = ''low'' then LOW
      else if legacySeverity = ''info'' then INFO
      else if legacySeverity \<in> set objectPrototypeKeys then InheritedAsSeverity legacySeverity
      else MEDIUM)"

definition severityLevels :: "SeverityLevel list" where
  "severityLevels = [INFO, LOW, MEDIUM, HIGH, CRITICAL]"

definition filterIssues :: "CodeIssue list \<Rightarrow> string \<Rightarrow> string list \<Rightarrow> CodeIssue list" where
  "filterIssues xs severityFilter issueTypes =
     (let mappedIssueTypes = map mapLegacyIssueType issueTypes;
          filtered = filter (\<lambda>issue. issue_type issue \<in> set mappedIssueTypes) xs
      in if severityFilter \<noteq> ''all''
         then (let minLevel = indexOf severityLevels (mapLegacySeverityTool severityFilter)
               in filter (\<lambda>issue. indexOf severityLevels (severity issue) \<ge> minLevel) filtered)
         else filtered)"

definition filteredResult :: "CodeReviewResult \<Rightarrow> string \<Rightarrow> string list \<Rightarrow> CodeReviewResult" where
  \<comment> \<open>\<open>executeCodeReview\<close>, from the service's result to the result that is reported\<close>
  "filteredResult result severityFilter issueTypes =
     (let filteredIssues = filterIssues (issues result) severityFilter issueTypes
      in result\<lparr>issues := filteredIssues,
                summary := (summary result)\<lparr>
                  totalIssues := length filteredIssues,
                  criticalIssues := countSeverity CRITICAL filteredIssues,
                  highIssues := countSeverity HIGH filteredIssues,
                  mediumIssues := countSeverity MEDIUM filteredIssues,
                  lowIssues := countSeverity LOW filteredIssues\<rparr>\<rparr>)"


section \<open>Theorems\<close>

subsection \<open>Filtering\<close>

text \<open>
  Claim C8. Filtering is idempotent: for every issue list, severity filter and set of
  issue types, filtering the filtered list again with the same arguments gives the
  filtered list.
\<close>

theorem filterIssues_idempotent:
  "filterIssues (filterIssues xs severityFilter issueTypes) severityFilter issueTypes
     = filterIssues xs severityFilter issueTypes"
  by (auto simp add: filterIssues_def Let_def intro!: filter_cong)

subsection \<open>Complexity\<close>

lemma foldl_count:
  "foldl (\<lambda>n w. if P w then n + 1 else n) (k::nat) ws = k + length (filter P ws)"
  by (induction ws arbitrary: k) simp_all

text \<open>
  Claim C5, as stated, fails: the count is over the words that splitting at whitespace
  leaves, so an operator or keyword that touches its neighbours is not counted. The
  content \<open>a&&b\<close> has one occurrence of \<open>&&\<close> and complexity 1.
\<close>

theorem complexity_occurrences_counterexample:
  "complexity (calculateMetrics ''a&&b'') = 1 \<and> specComplexity ''a&&b'' = 2"
proof -
  have "countComplexity ''a&&b'' = 1" by code_simp
  moreover have "specComplexity ''a&&b'' = 2" by code_simp
  ultimately show ?thesis by (simp add: calculateMetrics_def Let_def)
qed

text \<open>
  Claim C5, amended. For every content, the complexity is 1 plus the number of words,
  among those that splitting the content at runs of whitespace gives, that are equal to
  one of \<open>if\<close>, \<open>else\<close>, \<open>while\<close>, \<open>for\<close>, \<open>case\<close>, \<open>catch\<close>, \<open>&&\<close>, \<open>||\<close>, \<open>?\<close>.
\<close>

theorem complexity_counts_keyword_words:
  "complexity (calculateMetrics content)
     = 1 + length (filter (\<lambda>word. word \<in> set complexityKeywords) (splitWhitespace content))"
  by (simp add: calculateMetrics_def Let_def countComplexity_def foldl_count)

theorem complexity_counts_keyword_words_witness:
  "complexity (calculateMetrics ''if (a && b) x ? y'') = 1 + 3"
proof -
  have "length (filter (\<lambda>word. word \<in> set complexityKeywords)
          (splitWhitespace ''if (a && b) x ? y'')) = 3"
    by code_simp
  then show ?thesis
    using complexity_counts_keyword_words [of "''if (a && b) x ? y''"] by simp
qed


subsection \<open>The heuristic rules\<close>

lemma heuristicIssue_source [simp]: "source (heuristicIssue t sev msg f n sugg rule) = None"
  by (simp add: heuristicIssue_def)

lemma qualityLine_source: "i \<in> set (qualityLine f e il) \<Longrightarrow> source i = None"
  by (auto simp add: qualityLine_def Let_def split: if_splits)

lemma securityLine_source: "i \<in> set (securityLine f e il) \<Longrightarrow> source i = None"
  by (auto simp add: securityLine_def Let_def split: if_splits)

lemma performanceLine_source: "i \<in> set (performanceLine ls f e il) \<Longrightarrow> source i = None"
  by (auto simp add: performanceLine_def Let_def split: if_splits)

lemma styleLine_source: "i \<in> set (styleLine f il) \<Longrightarrow> source i = None"
  by (auto simp add: styleLine_def Let_def split: if_splits)

lemma heuristicScan_source: "i \<in> set (heuristicScan content f e) \<Longrightarrow> source i = None"
  by (auto simp add: heuristicScan_def checkCodeQuality_def checkSecurity_def
        checkPerformance_def checkCodeStyle_def Let_def
      dest: qualityLine_source securityLine_source performanceLine_source styleLine_source)

lemma apiKeyLine_matches: "regexTest (secretPatterns ! 1) apiKeyLine"
  by code_simp

lemma securityLine_apiKey:
  assumes "trim l = apiKeyLine"
  shows "heuristicIssue SECURITY CRITICAL
           ''Hardcoded secret detected. Secrets should be stored in environment variables.''
           f (k + 1)
           ''Move secrets to environment variables or secure configuration''
           ''hardcoded-secrets''
         \<in> set (securityLine f e (k, l))"
proof -
  have "secretPatterns ! 1 \<in> set secretPatterns"
    by (simp add: secretPatterns_def)
  then show ?thesis
    using apiKeyLine_matches assms
    by (auto simp add: securityLine_def Let_def intro!: bexI [of _ "secretPatterns ! 1"])
qed

lemma checkSecurity_apiKey:
  assumes "l \<in> set (splitLines content)" and "trim l = apiKeyLine"
  shows "\<exists>i \<in> set (checkSecurity content f e).
           issue_type i = SECURITY \<and> severity i = CRITICAL
           \<and> ruleId i = Some ''hardcoded-secrets'' \<and> source i = None \<and> issue_file i = f"
proof -
  from assms(1) obtain k where k: "k < length (splitLines content)" "splitLines content ! k = l"
    by (auto simp add: in_set_conv_nth)
  then have "(k, l) \<in> set (enumerate 0 (splitLines content))"
    by (simp add: in_set_enumerate_eq)
  with securityLine_apiKey [OF assms(2), of f k e]
  have "heuristicIssue SECURITY CRITICAL
           ''Hardcoded secret detected. Secrets should be stored in environment variables.''
           f (k + 1)
           ''Move secrets to environment variables or secure configuration''
           ''hardcoded-secrets''
         \<in> set (checkSecurity content f e)"
    unfolding checkSecurity_def by auto
  then show ?thesis
    by (rule bexI [rotated]) (simp add: heuristicIssue_def)
qed

lemma heuristicScan_apiKeyLine:
  "heuristicScan apiKeyLine ''app.js'' ''.js'' =
     [heuristicIssue SECURITY CRITICAL
        ''Hardcoded secret detected. Secrets should be stored in environment variables.''
        ''app.js'' 1
        ''Move secrets to environment variables or secure configuration''
        ''hardcoded-secrets'']"
  by code_simp

lemma extname_app_js: "toLowerCase (posixExtname ''app.js'') = ''.js''"
  by code_simp

text \<open>
  Claim C6, as stated, fails: the issues of the heuristic rules have no \<open>source\<close>
  property. For a JavaScript file whose content is the one line
  \<open>const apiKey = "sk-1234567890"\<close> the scan gives exactly one issue, the
  hardcoded-secret one, and its \<open>source\<close> is absent.
\<close>

theorem heuristic_source_counterexample:
  "(case analyzeFileHeuristic (singleFilePlatform ''app.js'' apiKeyLine) ''app.js'' of
      Inl e \<Rightarrow> False
    | Inr r \<Rightarrow> map ruleId (issues r) = [Some ''hardcoded-secrets'']
              \<and> map source (issues r) = [None])"
  by (simp add: analyzeFileHeuristic_def singleFilePlatform_def Let_def extname_app_js
        heuristicScan_apiKeyLine heuristicIssue_def)

text \<open>
  Claim C6, amended. Scanning a file that can be read and whose content has a line that
  is, up to surrounding whitespace, \<open>const apiKey = "sk-1234567890"\<close> produces a result
  with at least one issue of type Security and severity Critical whose ruleId is
  \<open>hardcoded-secrets\<close>, whose file is the scanned path, and which has no \<open>source\<close>
  property; no issue of the result has one. This holds for every extension, the
  JavaScript ones among them.
\<close>

theorem heuristic_finds_hardcoded_secret:
  assumes "readFile pf filePath = Inr content"
    and "l \<in> set (splitLines content)"
    and "trim l = apiKeyLine"
  shows "\<exists>r. analyzeFileHeuristic pf filePath = Inr r \<and>
           (\<exists>i \<in> set (issues r).
              issue_type i = SECURITY \<and> severity i = CRITICAL
              \<and> ruleId i = Some ''hardcoded-secrets'' \<and> source i = None
              \<and> issue_file i = filePath) \<and>
           (\<forall>i \<in> set (issues r). source i = None)"
proof -
  obtain i where i: "i \<in> set (checkSecurity content filePath (toLowerCase (extname pf filePath)))"
      "issue_type i = SECURITY" "severity i = CRITICAL"
      "ruleId i = Some ''hardcoded-secrets''" "source i = None" "issue_file i = filePath"
    using checkSecurity_apiKey [OF assms(2,3)] by blast
  then have "i \<in> set (heuristicScan content filePath (toLowerCase (extname pf filePath)))"
    by (simp add: heuristicScan_def)
  with i(2-) show ?thesis
    using assms(1) by (auto simp add: analyzeFileHeuristic_def Let_def dest: heuristicScan_source)
qed

theorem heuristic_finds_hardcoded_secret_witness:
  "\<exists>r. analyzeFileHeuristic
          (singleFilePlatform ''src/app.js'' (''let x = 1'' @ [CHR 0x0A] @ ''  '' @ apiKeyLine))
          ''src/app.js'' = Inr r \<and>
       (\<exists>i \<in> set (issues r).
          issue_type i = SECURITY \<and> severity i = CRITICAL
          \<and> ruleId i = Some ''hardcoded-secrets'' \<and> source i = None
          \<and> issue_file i = ''src/app.js'') \<and>
       (\<forall>i \<in> set (issues r). source i = None)"
proof -
  have 1: "readFile (singleFilePlatform ''src/app.js'' (''let x = 1'' @ [CHR 0x0A] @ ''  '' @ apiKeyLine))
             ''src/app.js'' = Inr (''let x = 1'' @ [CHR 0x0A] @ ''  '' @ apiKeyLine)"
    by (simp add: singleFilePlatform_def)
  have 2: "''  '' @ apiKeyLine \<in> set (splitLines (''let x = 1'' @ [CHR 0x0A] @ ''  '' @ apiKeyLine))"
    by code_simp
  have 3: "trim (''  '' @ apiKeyLine) = apiKeyLine"
    by code_simp
  show ?thesis
    by (rule heuristic_finds_hardcoded_secret [OF 1 2 3])
qed

subsection \<open>Determinism of the heuristic scan\<close>

text \<open>
  The state a scan could depend on is \<open>lastIndex\<close> of its regular expression
  objects: a second \<open>test\<close> of one object with the flag \<open>g\<close> on the same line gives a
  different answer.
\<close>

lemma lastIndex_is_state:
  "(case testObject \<lparr>reSource = magicNumberPattern, reGlobal = True, lastIndex = 0\<rparr> ''x = 42'' of
      (b1, obj1) \<Rightarrow>
        (case testObject obj1 ''x = 42'' of
           (b2, obj2) \<Rightarrow> b1 \<and> lastIndex obj1 = 6 \<and> \<not> b2 \<and> lastIndex obj2 = 0))"
  by code_simp

lemma execFrom_None: "(execFrom r prev s i = None) = (\<not> testFrom r prev s)"
  by (induction s arbitrary: prev i) (auto split: list.splits)

lemma testObject_fresh:
  "fst (testObject \<lparr>reSource = r, reGlobal = g, lastIndex = 0\<rparr> s) = regexTest r s"
proof (cases "execFrom r None s 0")
  case None
  then show ?thesis
    using execFrom_None [of r None s 0] by (simp add: testObject_def regexTest_def)
next
  case (Some e)
  then show ?thesis
    using execFrom_None [of r None s 0] by (simp add: testObject_def regexTest_def)
qed

lemma regExpTest_fresh:
  "fst (regExpTest (length h) s (h @ [\<lparr>reSource = r, reGlobal = g, lastIndex = 0\<rparr>]))
     = regexTest r s"
  using testObject_fresh [of r g s] by (auto simp add: regExpTest_def split: prod.splits)

lemma qualityLineH_fst: "fst (qualityLineH h f e il) = qualityLine f e il"
  using regExpTest_fresh [of h "trim (snd il)" magicNumberPattern True]
  by (simp add: qualityLineH_def qualityLine_def Let_def newRegExp_def case_prod_beta)

lemma testObject_nonglobal: "\<not> reGlobal obj \<Longrightarrow> snd (testObject obj s) = obj"
  by (simp add: testObject_def Let_def split: option.splits)

lemma regExpTest_nonglobal:
  "ref < length H \<Longrightarrow> \<not> reGlobal (H ! ref)
     \<Longrightarrow> regExpTest ref s H = (fst (testObject (H ! ref) s), H)"
  using testObject_nonglobal [of "H ! ref" s]
  by (simp add: regExpTest_def case_prod_beta)

lemma testEach_nonglobal:
  "\<forall>ref \<in> set refs. ref < length H \<and> \<not> reGlobal (H ! ref)
     \<Longrightarrow> testEach refs s H = (map (\<lambda>ref. fst (testObject (H ! ref) s)) refs, H)"
  by (induction refs) (simp_all add: regExpTest_nonglobal)

lemma newRegExps_eq:
  "newRegExps rs g h
     = ([length h ..< length h + length rs],
        h @ map (\<lambda>r. \<lparr>reSource = r, reGlobal = g, lastIndex = 0\<rparr>) rs)"
proof (induction rs arbitrary: h)
  case Nil
  show ?case by simp
next
  case (Cons r rs)
  let ?obj = "\<lparr>reSource = r, reGlobal = g, lastIndex = 0\<rparr>"
  have 1: "newRegExps rs g (h @ [?obj])
      = ([Suc (length h) ..< Suc (length h) + length rs],
         (h @ [?obj]) @ map (\<lambda>r. \<lparr>reSource = r, reGlobal = g, lastIndex = 0\<rparr>) rs)"
    using Cons.IH [of "h @ [?obj]"] by simp
  have 2: "length h # [Suc (length h) ..< Suc (length h) + length rs]
      = [length h ..< length h + length (r # rs)]"
    by (simp add: upt_conv_Cons del: upt_Suc)
  have "newRegExps (r # rs) g h
      = (length h # [Suc (length h) ..< Suc (length h) + length rs],
         (h @ [?obj]) @ map (\<lambda>r. \<lparr>reSource = r, reGlobal = g, lastIndex = 0\<rparr>) rs)"
    by (simp only: newRegExps.simps newRegExp_def 1 prod.case)
  then show ?case
    by (simp only: 2) simp
qed

lemma testEach_new:
  "testEach [length h ..< length h + length rs] s
      (h @ map (\<lambda>r. \<lparr>reSource = r, reGlobal = False, lastIndex = 0\<rparr>) rs)
     = (map (\<lambda>r. regexTest r s) rs,
        h @ map (\<lambda>r. \<lparr>reSource = r, reGlobal = False, lastIndex = 0\<rparr>) rs)"
proof -
  let ?H = "h @ map (\<lambda>r. \<lparr>reSource = r, reGlobal = False, lastIndex = 0\<rparr>) rs"
  have ok: "\<forall>ref \<in> set [length h ..< length h + length rs]. ref < length ?H \<and> \<not> reGlobal (?H ! ref)"
    by (auto simp add: nth_append)
  have "map (\<lambda>ref. fst (testObject (?H ! ref) s)) [length h ..< length h + length rs]
          = map (\<lambda>r. regexTest r s) rs"
    by (rule nth_equalityI) (simp_all add: nth_append testObject_fresh)
  with testEach_nonglobal [OF ok, of s] show ?thesis by simp
qed

lemma securityLineH_fst: "fst (securityLineH h f e il) = securityLine f e il"
  by (simp add: securityLineH_def securityLine_def Let_def newRegExps_eq testEach_new
        map_map comp_def case_prod_beta)

lemma forEachLine_fst:
  assumes "\<And>h il. fst (body h il) = pureBody il"
  shows "fst (forEachLine body ils acc) = fst acc @ concat (map pureBody ils)"
proof (induction ils arbitrary: acc)
  case Nil
  show ?case by simp
next
  case (Cons il ils)
  show ?case
    using assms [of "snd acc" il] by (simp add: Cons.IH case_prod_beta)
qed

lemma heuristicScanH_fst: "fst (heuristicScanH h content f e) = heuristicScan content f e"
proof -
  have q: "fst (forEachLine (\<lambda>h'. qualityLineH h' f e) ils ([], h0))
             = concat (map (qualityLine f e) ils)" for ils h0
    using forEachLine_fst [of "\<lambda>h'. qualityLineH h' f e" "qualityLine f e" ils "([], h0)"]
    by (simp add: qualityLineH_fst)
  have s: "fst (forEachLine (\<lambda>h'. securityLineH h' f e) ils ([], h0))
             = concat (map (securityLine f e) ils)" for ils h0
    using forEachLine_fst [of "\<lambda>h'. securityLineH h' f e" "securityLine f e" ils "([], h0)"]
    by (simp add: securityLineH_fst)
  show ?thesis
    using q s
    by (simp add: heuristicScanH_def heuristicScan_def checkCodeQuality_def checkSecurity_def
          case_prod_beta)
qed

lemma analyzeFileHeuristicH_read:
  assumes "readFile pf filePath = Inr content"
  shows "analyzeFileHeuristicH pf h filePath
     = (Inr \<lparr>summary = generateSummary (heuristicScan content filePath (toLowerCase (extname pf filePath))),
             issues = heuristicScan content filePath (toLowerCase (extname pf filePath)),
             metrics = calculateMetrics content, thirdPartyResults = None\<rparr>,
        snd (heuristicScanH h content filePath (toLowerCase (extname pf filePath))))"
  using assms heuristicScanH_fst [of h content filePath "toLowerCase (extname pf filePath)"]
  by (simp add: analyzeFileHeuristicH_def case_prod_beta)

lemma twoMagicLines_scan:
  "map ruleId (heuristicScan twoMagicLines ''app.js'' ''.js'')
     = [Some ''magic-numbers'', Some ''magic-numbers'']"
  by code_simp

lemma twoMagicLines_heap:
  "map lastIndex (snd (heuristicScanH [] twoMagicLines ''app.js'' ''.js''))
     = [6, 8, 0, 0, 0, 0, 0, 0, 0, 0]"
  by code_simp

text \<open>
  Claim C7. The heuristic scan is deterministic: a run that succeeds and any other run
  on the same platform and path, whatever regular expression objects (with whatever
  \<open>lastIndex\<close>) the heap holds when it starts, in particular a second run on the heap
  the first one leaves, give the same result: issue lists of the same length with the
  same issue at every position. The issues are the value of the four rule sets, as
  functions, on the content, the path and the lower-cased extension.
\<close>

theorem heuristic_scan_deterministic:
  assumes "analyzeFileHeuristicH pf h1 filePath = (Inr r1, h1')"
    and "analyzeFileHeuristicH pf h2 filePath = (res2, h2')"
  shows "res2 = Inr r1 \<and>
         fst (analyzeFileHeuristicH pf h1' filePath) = Inr r1 \<and>
         (\<exists>r2. res2 = Inr r2 \<and> length (issues r2) = length (issues r1) \<and>
            (\<forall>k < length (issues r1). issues r2 ! k = issues r1 ! k)) \<and>
         (\<exists>content. readFile pf filePath = Inr content \<and>
            issues r1 = heuristicScan content filePath (toLowerCase (extname pf filePath)))"
proof (cases "readFile pf filePath")
  case (Inl e)
  with assms(1) show ?thesis
    by (simp add: analyzeFileHeuristicH_def)
next
  case (Inr content)
  from assms(1) have 1: "Inr r1 = fst (analyzeFileHeuristicH pf h1 filePath)"
    by simp
  from assms(2) have 2: "res2 = fst (analyzeFileHeuristicH pf h2 filePath)"
    by simp
  show ?thesis
    using Inr 1 2 by (simp add: analyzeFileHeuristicH_read [OF Inr])
qed

theorem heuristic_scan_deterministic_witness:
  "\<exists>r h' h''.
     analyzeFileHeuristicH (singleFilePlatform ''app.js'' twoMagicLines) [] ''app.js'' = (Inr r, h') \<and>
     analyzeFileHeuristicH (singleFilePlatform ''app.js'' twoMagicLines) h' ''app.js'' = (Inr r, h'') \<and>
     map lastIndex h' = [6, 8, 0, 0, 0, 0, 0, 0, 0, 0] \<and>
     map ruleId (issues r) = [Some ''magic-numbers'', Some ''magic-numbers'']"
proof -
  let ?pf = "singleFilePlatform ''app.js'' twoMagicLines"
  have rd: "readFile ?pf ''app.js'' = Inr twoMagicLines"
    by (simp add: singleFilePlatform_def)
  have ext: "toLowerCase (extname ?pf ''app.js'') = ''.js''"
    by (simp add: singleFilePlatform_def extname_app_js)
  obtain r h' where run1: "analyzeFileHeuristicH ?pf [] ''app.js'' = (Inr r, h')"
    and r: "issues r = heuristicScan twoMagicLines ''app.js'' ''.js''"
    and h': "h' = snd (heuristicScanH [] twoMagicLines ''app.js'' ''.js'')"
    using analyzeFileHeuristicH_read [OF rd, of "[]"] by (simp add: ext)
  obtain res2 h'' where run2: "analyzeFileHeuristicH ?pf h' ''app.js'' = (res2, h'')"
    by (cases "analyzeFileHeuristicH ?pf h' ''app.js''") blast
  from heuristic_scan_deterministic [OF run1 run2] have "res2 = Inr r"
    by blast
  with run1 run2 r h' twoMagicLines_scan twoMagicLines_heap show ?thesis
    by auto
qed

subsection \<open>The full service: providers and the order of the issues\<close>

lemma runProviders_eq:
  "runProviders svc filePath content ao pids acc =
     (fst acc @ concat (map providerIssues (successfulResults svc filePath content ao pids)),
      snd acc @ successfulResults svc filePath content ao pids)"
proof (induction pids arbitrary: acc)
  case Nil
  show ?case by (simp add: successfulResults_def)
next
  case (Cons pid pids)
  show ?case
    by (simp add: Cons.IH successfulResults_def providerOutcome_def split: option.splits sum.splits)
qed

lemma length_successfulResults:
  "length (successfulResults svc filePath content ao pids)
     = length (filter (\<lambda>pid. providerOutcome svc filePath content ao pid \<noteq> None) pids)"
  by (induction pids) (auto simp add: successfulResults_def split: option.splits)

lemma supported_keys:
  "map fst initializeSupportedLanguages
     = [''.js'', ''.jsx'', ''.ts'', ''.tsx'', ''.py'', ''.java'', ''.go'', ''.rs'']"
  by code_simp

lemma supported_None:
  "mapGet initializeSupportedLanguages ext = None
     \<longleftrightarrow> ext \<notin> set [''.js'', ''.jsx'', ''.ts'', ''.tsx'', ''.py'', ''.java'', ''.go'', ''.rs'']"
  unfolding mapGet_def map_of_eq_None_iff supported_keys [symmetric] by simp

lemma ts_language:
  "mapGet initializeSupportedLanguages (toLowerCase (posixExtname ''app.ts''))
     = Some \<lparr>languageName = ''TypeScript'', extensions = [''.ts'', ''.tsx''],
             aliases = [''ts'', ''typescript'']\<rparr>"
  by code_simp

lemma js_language:
  "mapGet initializeSupportedLanguages (toLowerCase (posixExtname ''app.js''))
     = Some \<lparr>languageName = ''JavaScript'', extensions = [''.js'', ''.jsx''],
             aliases = [''js'', ''javascript'']\<rparr>"
  by code_simp

lemma three_keys: "mapKeys (thirdPartyProviders threeProviderService) = [''alpha'', ''beta'', ''gamma'']"
  by (simp add: threeProviderService_def registerProvider_def mapKeys_def succeedingProvider_def
        timingOutProvider_def)

lemma three_results:
  "successfulResults threeProviderService ''app.ts'' ''let x'' None [''alpha'', ''beta'', ''gamma'']
     = [\<lparr>providerId = ''alpha'', providerVersion = ''1.0.0'', analysisId = ''analysis_1'',
          processingTime = 0, providerIssues = [vendorIssue ''alpha'']\<rparr>,
        \<lparr>providerId = ''gamma'', providerVersion = ''1.0.0'', analysisId = ''analysis_1'',
          processingTime = 0, providerIssues = [vendorIssue ''gamma'']\<rparr>]"
  by (simp add: successfulResults_def providerOutcome_def threeProviderService_def
        registerProvider_def mapGet_def succeedingProvider_def timingOutProvider_def)

lemma reversed_results:
  "successfulResults threeProviderService ''app.ts'' ''let x'' None [''gamma'', ''alpha'']
     = [\<lparr>providerId = ''gamma'', providerVersion = ''1.0.0'', analysisId = ''analysis_1'',
          processingTime = 0, providerIssues = [vendorIssue ''gamma'']\<rparr>,
        \<lparr>providerId = ''alpha'', providerVersion = ''1.0.0'', analysisId = ''analysis_1'',
          processingTime = 0, providerIssues = [vendorIssue ''alpha'']\<rparr>]"
  by (simp add: successfulResults_def providerOutcome_def threeProviderService_def
        registerProvider_def mapGet_def succeedingProvider_def timingOutProvider_def)

lemma three_ai:
  "aiReply threeProviderService language content
     = Some [\<lparr>rawType = ''bug'', rawSeverity = ''low'', rawMessage = ''unused value'',
              rawLine = 1, rawColumn = None, rawDescription = None,
                         rawSuggestion = None, rawRuleId = None\<rparr>]"
  by (simp add: threeProviderService_def registerProvider_def)

lemma mapKeys_mapSet:
  "mapKeys (mapSet m k v) = (if k \<in> set (mapKeys m) then mapKeys m else mapKeys m @ [k])"
  by (induction m) (force simp add: mapKeys_def)+

lemma analyzeFile_three:
  "analyzeFile (singleFilePlatform ''app.ts'' ''let x'') threeProviderService ''app.ts''
     (Some reversedProviders)
   = Inr \<lparr>summary = generateSummary
            (performAIAnalysis threeProviderService ''let x'' ''app.ts''
               \<lparr>languageName = ''TypeScript'', extensions = [''.ts'', ''.tsx''],
                aliases = [''ts'', ''typescript'']\<rparr>
             @ [vendorIssue ''gamma'', vendorIssue ''alpha'']),
          issues = performAIAnalysis threeProviderService ''let x'' ''app.ts''
               \<lparr>languageName = ''TypeScript'', extensions = [''.ts'', ''.tsx''],
                aliases = [''ts'', ''typescript'']\<rparr>
             @ [vendorIssue ''gamma'', vendorIssue ''alpha''],
          metrics = calculateMetrics ''let x'',
          thirdPartyResults = Some
            [\<lparr>providerId = ''gamma'', providerVersion = ''1.0.0'', analysisId = ''analysis_1'',
              processingTime = 0, providerIssues = [vendorIssue ''gamma'']\<rparr>,
             \<lparr>providerId = ''alpha'', providerVersion = ''1.0.0'', analysisId = ''analysis_1'',
              processingTime = 0, providerIssues = [vendorIssue ''alpha'']\<rparr>]\<rparr>"
  by (simp add: analyzeFile_def singleFilePlatform_def ts_language Let_def thirdPartyEnabled_def
        reversedProviders_def providersToUse_def runProviders_eq reversed_results)

text \<open>
  Claim C1, as stated, fails: a provider that throws is not recorded anywhere in the
  result. With the three providers \<open>alpha\<close>, \<open>beta\<close> and \<open>gamma\<close>, of which \<open>beta\<close>
  times out, the run succeeds, \<open>thirdPartyResults\<close> has length 2 (the results of
  \<open>alpha\<close> and \<open>gamma\<close>), and the issues are those of the model and of the two.
\<close>

theorem failed_provider_not_recorded_counterexample:
  "(case analyzeFile (singleFilePlatform ''app.ts'' ''let x'') threeProviderService ''app.ts''
           (Some allProviders) of
      Inl e \<Rightarrow> False
    | Inr r \<Rightarrow> map_option (map providerId) (thirdPartyResults r) = Some [''alpha'', ''gamma'']
              \<and> map_option length (thirdPartyResults r) = Some 2
              \<and> map source (issues r) = [Some ''AI'', Some ''alpha'', Some ''gamma''])"
  by (simp add: analyzeFile_def singleFilePlatform_def ts_language Let_def thirdPartyEnabled_def
        allProviders_def providersToUse_def three_keys runProviders_eq three_results
        performAIAnalysis_def vendorIssue_def three_ai)

text \<open>
  Claim C1, amended. When the file can be read, its type is supported and third-party
  analysis is enabled, the run succeeds whatever the providers do; \<open>thirdPartyResults\<close>
  holds the results of the providers of the list in use that are registered and did not
  throw, in the order of that list, and nothing for the others, so its length is the
  number of provider ids in the list whose provider succeeded; the issues are those of
  the model followed by those of the results held.
\<close>

theorem provider_failure_never_aborts:
  assumes "readFile pf filePath = Inr content"
    and "mapGet initializeSupportedLanguages (toLowerCase (extname pf filePath)) = Some language"
    and "enableThirdParty opts = Some True"
  shows "\<exists>r. analyzeFile pf svc filePath (Some opts) = Inr r \<and>
           thirdPartyResults r
             = Some (successfulResults svc filePath content (analysisOptions opts)
                       (providersToUse svc opts)) \<and>
           length (successfulResults svc filePath content (analysisOptions opts)
                     (providersToUse svc opts))
             = length (filter (\<lambda>pid. providerOutcome svc filePath content (analysisOptions opts) pid
                                        \<noteq> None)
                         (providersToUse svc opts)) \<and>
           issues r
             = performAIAnalysis svc content filePath language
               @ concat (map providerIssues
                   (successfulResults svc filePath content (analysisOptions opts)
                      (providersToUse svc opts)))"
  using assms
  by (simp add: analyzeFile_def Let_def thirdPartyEnabled_def runProviders_eq
        length_successfulResults)

theorem provider_failure_never_aborts_witness:
  "\<exists>r. analyzeFile (singleFilePlatform ''app.ts'' ''let x'') threeProviderService ''app.ts''
          (Some allProviders) = Inr r \<and>
       thirdPartyResults r
         = Some (successfulResults threeProviderService ''app.ts'' ''let x''
                   (analysisOptions allProviders) (providersToUse threeProviderService allProviders)) \<and>
       length (successfulResults threeProviderService ''app.ts'' ''let x''
                 (analysisOptions allProviders) (providersToUse threeProviderService allProviders))
         = length (filter (\<lambda>pid. providerOutcome threeProviderService ''app.ts'' ''let x''
                                    (analysisOptions allProviders) pid \<noteq> None)
                     (providersToUse threeProviderService allProviders)) \<and>
       issues r
         = performAIAnalysis threeProviderService ''let x'' ''app.ts''
             \<lparr>languageName = ''TypeScript'', extensions = [''.ts'', ''.tsx''],
              aliases = [''ts'', ''typescript'']\<rparr>
           @ concat (map providerIssues
               (successfulResults threeProviderService ''app.ts'' ''let x''
                  (analysisOptions allProviders) (providersToUse threeProviderService allProviders)))"
proof -
  have 1: "readFile (singleFilePlatform ''app.ts'' ''let x'') ''app.ts'' = Inr ''let x''"
    by (simp add: singleFilePlatform_def)
  have 2: "mapGet initializeSupportedLanguages
             (toLowerCase (extname (singleFilePlatform ''app.ts'' ''let x'') ''app.ts''))
           = Some \<lparr>languageName = ''TypeScript'', extensions = [''.ts'', ''.tsx''],
                   aliases = [''ts'', ''typescript'']\<rparr>"
    using ts_language by (simp add: singleFilePlatform_def)
  have 3: "enableThirdParty allProviders = Some True"
    by (simp add: allProviders_def)
  show ?thesis
    by (rule provider_failure_never_aborts [OF 1 2 3])
qed

text \<open>
  Claim C2, as stated, fails. The full service runs no heuristic rule: on the JavaScript
  file with the line \<open>const apiKey = "sk-1234567890"\<close>, a model that reports nothing
  and no providers, the issue list is empty, while the heuristic rules find the
  hardcoded secret in that content. And the providers' issues follow the order of the
  list in use: with the caller's list \<open>gamma\<close>, \<open>alpha\<close> the issues of \<open>gamma\<close>
  come first, though \<open>alpha\<close> was registered first.
\<close>

theorem heuristic_not_run_counterexample:
  "(case analyzeFile (singleFilePlatform ''app.js'' apiKeyLine) silentService ''app.js'' None of
      Inl e \<Rightarrow> False
    | Inr r \<Rightarrow> issues r = [])
   \<and> map ruleId (heuristicScan apiKeyLine ''app.js'' ''.js'') = [Some ''hardcoded-secrets'']
   \<and> mapKeys (thirdPartyProviders threeProviderService) = [''alpha'', ''beta'', ''gamma'']
   \<and> (case analyzeFile (singleFilePlatform ''app.ts'' ''let x'') threeProviderService ''app.ts''
              (Some reversedProviders) of
         Inl e \<Rightarrow> False
       | Inr r \<Rightarrow> map source (issues r) = [Some ''AI'', Some ''gamma'', Some ''alpha''])"
  by (simp add: analyzeFile_def singleFilePlatform_def js_language ts_language Let_def
        thirdPartyEnabled_def silentService_def performAIAnalysis_def
        heuristicScan_apiKeyLine heuristicIssue_def three_keys
        reversedProviders_def providersToUse_def runProviders_eq reversed_results
        vendorIssue_def three_ai)

text \<open>
  Claim C2, amended. For every file the full service analyzes (one it can read, of a
  supported type), the model is asked unconditionally and no heuristic rule runs; the
  issue list is all issues of the model first, then the issues of each provider of the
  list in use that is registered and did not throw, in the order of that list (none
  when third-party analysis is not enabled). The list in use is the caller's list when
  there is one, and otherwise the registered ids in registration order: registering
  appends a new id and leaves an id that is already registered in its place.
\<close>

theorem merged_issue_order:
  assumes "analyzeFile pf svc filePath options = Inr r"
  shows "\<exists>content language.
           readFile pf filePath = Inr content \<and>
           mapGet initializeSupportedLanguages (toLowerCase (extname pf filePath)) = Some language \<and>
           issues r = performAIAnalysis svc content filePath language
                      @ concat (map providerIssues (usedResults svc filePath content options)) \<and>
           thirdPartyResults r = Some (usedResults svc filePath content options) \<and>
           (\<forall>opts. providers opts = None \<longrightarrow>
              providersToUse svc opts = mapKeys (thirdPartyProviders svc)) \<and>
           (\<forall>opts ps. providers opts = Some ps \<longrightarrow> providersToUse svc opts = ps) \<and>
           (\<forall>p. mapKeys (thirdPartyProviders (registerProvider svc p))
                  = (if provId p \<in> set (mapKeys (thirdPartyProviders svc))
                     then mapKeys (thirdPartyProviders svc)
                     else mapKeys (thirdPartyProviders svc) @ [provId p]))"
proof -
  from assms obtain content where c: "readFile pf filePath = Inr content"
    by (auto simp add: analyzeFile_def split: sum.splits)
  with assms obtain language where
    l: "mapGet initializeSupportedLanguages (toLowerCase (extname pf filePath)) = Some language"
    by (auto simp add: analyzeFile_def Let_def split: option.splits)
  have "issues r = performAIAnalysis svc content filePath language
                      @ concat (map providerIssues (usedResults svc filePath content options))
        \<and> thirdPartyResults r = Some (usedResults svc filePath content options)"
    using assms c l
    by (auto simp add: analyzeFile_def Let_def thirdPartyEnabled_def usedResults_def
          runProviders_eq split: option.splits if_splits)
  then show ?thesis
    using c l by (auto simp add: providersToUse_def registerProvider_def mapKeys_mapSet)
qed

theorem merged_issue_order_witness:
  "\<exists>r content language.
     analyzeFile (singleFilePlatform ''app.ts'' ''let x'') threeProviderService ''app.ts''
       (Some reversedProviders) = Inr r \<and>
     readFile (singleFilePlatform ''app.ts'' ''let x'') ''app.ts'' = Inr content \<and>
     mapGet initializeSupportedLanguages
       (toLowerCase (extname (singleFilePlatform ''app.ts'' ''let x'') ''app.ts'')) = Some language \<and>
     issues r = performAIAnalysis threeProviderService content ''app.ts'' language
                @ concat (map providerIssues
                    (usedResults threeProviderService ''app.ts'' content (Some reversedProviders))) \<and>
     thirdPartyResults r
       = Some (usedResults threeProviderService ''app.ts'' content (Some reversedProviders))"
  using merged_issue_order [OF analyzeFile_three] analyzeFile_three by blast

subsection \<open>The reported summary\<close>

lemma length_by_severity:
  "length xs = countSeverity CRITICAL xs + countSeverity HIGH xs + countSeverity MEDIUM xs
     + countSeverity LOW xs + countSeverity INFO xs
     + length (filter (\<lambda>i. severity i \<notin> set [CRITICAL, HIGH, MEDIUM, LOW, INFO]) xs)"
proof (induction xs)
  case Nil
  show ?case by (simp add: countSeverity_def)
next
  case (Cons x xs)
  then show ?case by (cases "severity x") (simp_all add: countSeverity_def)
qed

lemma info_results:
  "successfulResults (registerProvider silentService infoProvider) ''app.ts'' ''let x'' None
     (mapKeys (thirdPartyProviders (registerProvider silentService infoProvider)))
     = [\<lparr>providerId = ''notes'', providerVersion = ''1.0.0'', analysisId = ''analysis_1'',
          processingTime = 0, providerIssues = [infoIssue]\<rparr>]"
  by (simp add: successfulResults_def providerOutcome_def silentService_def
        registerProvider_def mapGet_def mapKeys_def infoProvider_def)

lemma info_analyzeFile:
  "analyzeFile (singleFilePlatform ''app.ts'' ''let x'') (registerProvider silentService infoProvider)
     ''app.ts'' (Some allProviders)
   = Inr \<lparr>summary = generateSummary [infoIssue], issues = [infoIssue],
          metrics = calculateMetrics ''let x'',
          thirdPartyResults = Some
            [\<lparr>providerId = ''notes'', providerVersion = ''1.0.0'', analysisId = ''analysis_1'',
              processingTime = 0, providerIssues = [infoIssue]\<rparr>]\<rparr>"
proof -
  have "performAIAnalysis (registerProvider silentService infoProvider) ''let x'' ''app.ts'' l = []" for l
    by (simp add: performAIAnalysis_def registerProvider_def silentService_def)
  then show ?thesis
    by (simp add: analyzeFile_def singleFilePlatform_def ts_language Let_def thirdPartyEnabled_def
          allProviders_def providersToUse_def runProviders_eq info_results)
qed

lemma inherited_severity_run:
  "(case analyzeFile (singleFilePlatform ''app.ts'' ''let x'')
           \<lparr>aiReply = (\<lambda>language content.
                Some [\<lparr>rawType = ''quality'', rawSeverity = ''constructor'', rawMessage = ''m'',
                       rawLine = 1, rawColumn = None, rawDescription = None,
                       rawSuggestion = None, rawRuleId = None\<rparr>]),
            thirdPartyProviders = []\<rparr> ''app.ts'' None of
      Inl e \<Rightarrow> False
    | Inr result \<Rightarrow>
        map severity (issues result) = [InheritedAsSeverity ''constructor''] \<and>
        totalIssues (summary (filteredResult result ''all'' [''quality''])) = 1 \<and>
        criticalIssues (summary (filteredResult result ''all'' [''quality''])) = 0 \<and>
        highIssues (summary (filteredResult result ''all'' [''quality''])) = 0 \<and>
        mediumIssues (summary (filteredResult result ''all'' [''quality''])) = 0 \<and>
        lowIssues (summary (filteredResult result ''all'' [''quality''])) = 0)"
proof -
  have "mapLegacySeverity ''constructor'' = InheritedAsSeverity ''constructor''"
    by code_simp
  then show ?thesis
    by (simp add: analyzeFile_def singleFilePlatform_def ts_language Let_def thirdPartyEnabled_def
          performAIAnalysis_def mapLegacyType_def filteredResult_def filterIssues_def
          mapLegacyIssueType_def countSeverity_def)
qed

text \<open>
  Claim C3, as stated, fails: the summary has no counter for severity \<open>info\<close>, while
  an issue may have it and the filter keeps it (here under the filter \<open>all\<close>). With a
  registered provider that reports one issue of severity \<open>info\<close>, the reported result
  has \<open>totalIssues\<close> 1 and four counters that sum to 0.
\<close>

theorem summary_severity_sum_counterexample:
  "(case analyzeFile (singleFilePlatform ''app.ts'' ''let x'')
           (registerProvider silentService infoProvider) ''app.ts'' (Some allProviders) of
      Inl e \<Rightarrow> False
    | Inr result \<Rightarrow>
        (let r = filteredResult result ''all'' [''quality'', ''security'', ''performance'', ''style'']
         in totalIssues (summary r) = 1 \<and> length (issues r) = 1 \<and>
            criticalIssues (summary r) + highIssues (summary r) + mediumIssues (summary r)
              + lowIssues (summary r) = 0))"
  by (simp add: info_analyzeFile filteredResult_def filterIssues_def mapLegacyIssueType_def
        countSeverity_def Let_def infoIssue_def)

text \<open>
  Claim C3, amended. In the result that is reported, the issues are the filtered issues
  of the service's result, \<open>totalIssues\<close> is their number and each of the four counters
  counts the filtered issues of its severity. When the severity of every filtered issue
  is a member of the enumeration, the four counters together with the number of
  filtered issues of severity \<open>info\<close> sum to \<open>totalIssues\<close>; when it is one of critical,
  high, medium and low, the four counters sum to \<open>totalIssues\<close>.
\<close>

theorem filteredResult_summary:
  "issues (filteredResult result severityFilter issueTypes)
       = filterIssues (issues result) severityFilter issueTypes \<and>
   totalIssues (summary (filteredResult result severityFilter issueTypes))
       = length (issues (filteredResult result severityFilter issueTypes)) \<and>
   criticalIssues (summary (filteredResult result severityFilter issueTypes))
       = countSeverity CRITICAL (filterIssues (issues result) severityFilter issueTypes) \<and>
   highIssues (summary (filteredResult result severityFilter issueTypes))
       = countSeverity HIGH (filterIssues (issues result) severityFilter issueTypes) \<and>
   mediumIssues (summary (filteredResult result severityFilter issueTypes))
       = countSeverity MEDIUM (filterIssues (issues result) severityFilter issueTypes) \<and>
   lowIssues (summary (filteredResult result severityFilter issueTypes))
       = countSeverity LOW (filterIssues (issues result) severityFilter issueTypes) \<and>
   ((\<forall>i \<in> set (issues (filteredResult result severityFilter issueTypes)).
        severity i \<in> set [CRITICAL, HIGH, MEDIUM, LOW, INFO]) \<longrightarrow>
      criticalIssues (summary (filteredResult result severityFilter issueTypes))
        + highIssues (summary (filteredResult result severityFilter issueTypes))
        + mediumIssues (summary (filteredResult result severityFilter issueTypes))
        + lowIssues (summary (filteredResult result severityFilter issueTypes))
        + countSeverity INFO (issues (filteredResult result severityFilter issueTypes))
      = totalIssues (summary (filteredResult result severityFilter issueTypes))) \<and>
   ((\<forall>i \<in> set (issues (filteredResult result severityFilter issueTypes)).
        severity i \<in> set [CRITICAL, HIGH, MEDIUM, LOW]) \<longrightarrow>
      criticalIssues (summary (filteredResult result severityFilter issueTypes))
        + highIssues (summary (filteredResult result severityFilter issueTypes))
        + mediumIssues (summary (filteredResult result severityFilter issueTypes))
        + lowIssues (summary (filteredResult result severityFilter issueTypes))
      = totalIssues (summary (filteredResult result severityFilter issueTypes)))"
proof -
  let ?xs = "filterIssues (issues result) severityFilter issueTypes"
  have a: "filter (\<lambda>i. severity i \<notin> set [CRITICAL, HIGH, MEDIUM, LOW, INFO]) ?xs = []"
    if "\<forall>i \<in> set ?xs. severity i \<in> set [CRITICAL, HIGH, MEDIUM, LOW, INFO]"
    using that by (simp add: filter_empty_conv)
  have b: "filter (\<lambda>i. severity i \<notin> set [CRITICAL, HIGH, MEDIUM, LOW, INFO]) ?xs = []
           \<and> countSeverity INFO ?xs = 0"
    if "\<forall>i \<in> set ?xs. severity i \<in> set [CRITICAL, HIGH, MEDIUM, LOW]"
    using that by (auto simp add: filter_empty_conv countSeverity_def)
  show ?thesis
    using length_by_severity [of ?xs] a b
    by (auto simp add: filteredResult_def Let_def)
qed

theorem filteredResult_summary_witness:
  "length (issues mixedResult) = 3 \<and>
   length (issues (filteredResult mixedResult ''medium'' [''bug''])) = 1 \<and>
   totalIssues (summary (filteredResult mixedResult ''medium'' [''bug''])) = 1 \<and>
   criticalIssues (summary (filteredResult mixedResult ''medium'' [''bug'']))
     + highIssues (summary (filteredResult mixedResult ''medium'' [''bug'']))
     + mediumIssues (summary (filteredResult mixedResult ''medium'' [''bug'']))
     + lowIssues (summary (filteredResult mixedResult ''medium'' [''bug'']))
     = totalIssues (summary (filteredResult mixedResult ''medium'' [''bug'']))"
proof -
  note t = filteredResult_summary [of mixedResult "''medium''" "[''bug'']"]
  have f: "filterIssues (issues mixedResult) ''medium'' [''bug''] = [vendorIssue ''alpha'']"
    by (simp add: mixedResult_def filterIssues_def Let_def mapLegacyIssueType_def
          mapLegacySeverityTool_def severityLevels_def vendorIssue_def)
  from t have 1: "issues (filteredResult mixedResult ''medium'' [''bug''])
      = filterIssues (issues mixedResult) ''medium'' [''bug'']"
    by blast
  from t have 2: "totalIssues (summary (filteredResult mixedResult ''medium'' [''bug'']))
      = length (issues (filteredResult mixedResult ''medium'' [''bug'']))"
    by blast
  have h: "\<forall>i \<in> set (issues (filteredResult mixedResult ''medium'' [''bug''])).
             severity i \<in> set [CRITICAL, HIGH, MEDIUM, LOW]"
    by (simp add: 1 f vendorIssue_def)
  from t h have 3: "criticalIssues (summary (filteredResult mixedResult ''medium'' [''bug'']))
     + highIssues (summary (filteredResult mixedResult ''medium'' [''bug'']))
     + mediumIssues (summary (filteredResult mixedResult ''medium'' [''bug'']))
     + lowIssues (summary (filteredResult mixedResult ''medium'' [''bug'']))
     = totalIssues (summary (filteredResult mixedResult ''medium'' [''bug'']))"
    by blast
  have "length (issues mixedResult) = 3"
    by (simp add: mixedResult_def)
  with 1 2 3 f show ?thesis by simp
qed

subsection \<open>Unsupported file types\<close>

lemma analyzeFile_unsupported:
  assumes "toLowerCase (extname pf filePath)
             \<notin> set [''.js'', ''.jsx'', ''.ts'', ''.tsx'', ''.py'', ''.java'', ''.go'', ''.rs'']"
  shows "analyzeFile pf svc filePath options
           = (case readFile pf filePath of
                Inl e \<Rightarrow> Inl e
              | Inr content \<Rightarrow> Inl (UnsupportedFileType (toLowerCase (extname pf filePath))))"
proof -
  have "mapGet initializeSupportedLanguages (toLowerCase (extname pf filePath)) = None"
    using assms supported_None by blast
  then show ?thesis
    by (simp add: analyzeFile_def Let_def split: sum.splits)
qed

lemma addFile_failed:
  "analyzeFile pf svc filePath options = Inl e \<Longrightarrow> addFile pf svc options acc filePath = acc"
  by (cases acc) (simp add: addFile_def)

lemma main_c_ext: "toLowerCase (posixExtname ''src/main.c'') = ''.c''"
  by code_simp

lemma main_c_name_ext: "toLowerCase (posixExtname ''main.c'') = ''.c''"
  by code_simp

lemma gone_c_ext: "toLowerCase (posixExtname ''src/gone.c'') = ''.c''"
  by code_simp

text \<open>
  Claim C10, as stated, fails in two places. The file is read before its type is looked
  at, so for a path with the extension \<open>.c\<close> that cannot be read \<open>analyzeFile\<close> throws
  the error of the read, not \<open>Unsupported file type\<close>. And a \<open>.c\<close> file is not skipped
  silently in a directory scan: it contributes nothing to the result, but the scan shows
  an error message to the user and writes a warning to the console for it.
\<close>

theorem unsupported_file_type_counterexample:
  "toLowerCase (extname (singleFilePlatform ''src/main.c'' ''int x;'') ''src/gone.c'') = ''.c'' \<and>
   analyzeFile (singleFilePlatform ''src/main.c'' ''int x;'') silentService ''src/gone.c'' None
     = Inl (FsError ''ENOENT'') \<and>
   analyzeDirectory (singleFilePlatform ''src/main.c'' ''int x;'') silentService
       (Some [File ''main.c'']) ''src'' None
     = Inr \<lparr>summary = generateSummary [], issues = [],
            metrics = \<lparr>linesOfCode = 0, complexity = 0, maintainabilityIndex = PosInfinity\<rparr>,
            thirdPartyResults = Some []\<rparr> \<and>
   analyzeDirectoryEffects (singleFilePlatform ''src/main.c'' ''int x;'') silentService
       (Some [File ''main.c'']) ''src'' None
     = [ShowFileError (UnsupportedFileType ''.c''),
        WarnFile ''src/main.c'' (UnsupportedFileType ''.c'')]"
proof -
  let ?pf = "singleFilePlatform ''src/main.c'' ''int x;''"
  have e: "toLowerCase (extname ?pf ''src/gone.c'') = ''.c''"
    by (simp add: singleFilePlatform_def gone_c_ext)
  have g: "analyzeFile ?pf silentService ''src/gone.c'' None = Inl (FsError ''ENOENT'')"
    by (simp add: analyzeFile_def singleFilePlatform_def)
  have l: "mapGet initializeSupportedLanguages ''.c'' = None"
    by (simp add: supported_None)
  have a: "analyzeFile ?pf silentService ''src/main.c'' None = Inl (UnsupportedFileType ''.c'')"
    by (simp add: analyzeFile_def singleFilePlatform_def main_c_ext l Let_def)
  have f: "findFiles ?pf ''src'' (Some [File ''main.c'']) = Inr [''src/main.c'']"
    by (simp add: findFiles_def singleFilePlatform_def Let_def main_c_name_ext supportedExtensions_def)
  have d: "analyzeDirectory ?pf silentService (Some [File ''main.c'']) ''src'' None
     = Inr \<lparr>summary = generateSummary [], issues = [],
            metrics = \<lparr>linesOfCode = 0, complexity = 0, maintainabilityIndex = PosInfinity\<rparr>,
            thirdPartyResults = Some []\<rparr>"
    by (simp add: analyzeDirectory_def f analyzeFiles_def addFile_def a
          calculateMaintainabilityIndex_def)
  have ae: "analyzeFileEffects ?pf silentService ''src/main.c'' None
     = [ShowFileError (UnsupportedFileType ''.c'')]"
    by (simp add: analyzeFileEffects_def singleFilePlatform_def main_c_ext l Let_def)
  have x: "analyzeDirectoryEffects ?pf silentService (Some [File ''main.c'']) ''src'' None
     = [ShowFileError (UnsupportedFileType ''.c''),
        WarnFile ''src/main.c'' (UnsupportedFileType ''.c'')]"
    by (simp add: analyzeDirectoryEffects_def f addFileEffects_def a ae)
  from e g d x show ?thesis by blast
qed

text \<open>
  Claim C10, amended. For every path whose lower-cased extension is none of \<open>.js\<close>,
  \<open>.jsx\<close>, \<open>.ts\<close>, \<open>.tsx\<close>, \<open>.py\<close>, \<open>.java\<close>, \<open>.go\<close>, \<open>.rs\<close>, \<open>analyzeFile\<close> of the
  full service produces no result: when the file can be read it throws
  \<open>Unsupported file type\<close> with that extension, and when it cannot it throws the error of
  the read; either way it first shows the error to the user. In a directory scan such a
  file leaves the totals as they are (the scan of a file list is the scan of the list
  without it), and the scan shows the error message and writes one warning to the
  console for it. A file named with the extension \<open>.c\<close> or \<open>.cpp\<close> is collected by the
  directory walker, and no language is registered for its extension.
\<close>

theorem unsupported_file_type_rejected:
  assumes "toLowerCase (extname pf filePath)
             \<notin> set [''.js'', ''.jsx'', ''.ts'', ''.tsx'', ''.py'', ''.java'', ''.go'', ''.rs'']"
  shows "(\<exists>e. analyzeFile pf svc filePath options = Inl e) \<and>
         (\<forall>content. readFile pf filePath = Inr content \<longrightarrow>
            analyzeFile pf svc filePath options
              = Inl (UnsupportedFileType (toLowerCase (extname pf filePath))) \<and>
            analyzeFileEffects pf svc filePath options
              = [ShowFileError (UnsupportedFileType (toLowerCase (extname pf filePath)))] \<and>
            addFileEffects pf svc options filePath
              = [ShowFileError (UnsupportedFileType (toLowerCase (extname pf filePath))),
                 WarnFile filePath (UnsupportedFileType (toLowerCase (extname pf filePath)))]) \<and>
         (\<forall>e. readFile pf filePath = Inl e \<longrightarrow>
            analyzeFile pf svc filePath options = Inl e \<and>
            addFileEffects pf svc options filePath = [ShowFileError e, WarnFile filePath e]) \<and>
         (\<forall>acc. addFile pf svc options acc filePath = acc) \<and>
         (\<forall>before rest. analyzeFiles pf svc options (before @ filePath # rest)
                          = analyzeFiles pf svc options (before @ rest)) \<and>
         (\<forall>dir name. toLowerCase (extname pf name) \<in> {''.c'', ''.cpp''} \<longrightarrow>
            scanEntry pf dir (File name) = Inr [pathJoin pf dir name] \<and>
            mapGet initializeSupportedLanguages (toLowerCase (extname pf name)) = None)"
proof -
  have n: "mapGet initializeSupportedLanguages (toLowerCase (extname pf filePath)) = None"
    using assms supported_None by blast
  have 1: "\<exists>e. analyzeFile pf svc filePath options = Inl e"
    by (simp add: analyzeFile_unsupported [OF assms] split: sum.splits)
  have 2: "\<forall>content. readFile pf filePath = Inr content \<longrightarrow>
            analyzeFile pf svc filePath options
              = Inl (UnsupportedFileType (toLowerCase (extname pf filePath))) \<and>
            analyzeFileEffects pf svc filePath options
              = [ShowFileError (UnsupportedFileType (toLowerCase (extname pf filePath)))] \<and>
            addFileEffects pf svc options filePath
              = [ShowFileError (UnsupportedFileType (toLowerCase (extname pf filePath))),
                 WarnFile filePath (UnsupportedFileType (toLowerCase (extname pf filePath)))]"
    by (simp add: analyzeFile_unsupported [OF assms] analyzeFileEffects_def addFileEffects_def
          n Let_def)
  have 3: "\<forall>e. readFile pf filePath = Inl e \<longrightarrow>
            analyzeFile pf svc filePath options = Inl e \<and>
            addFileEffects pf svc options filePath = [ShowFileError e, WarnFile filePath e]"
    by (simp add: analyzeFile_def analyzeFileEffects_def addFileEffects_def)
  have skip: "addFile pf svc options acc filePath = acc" for acc
    using 1 by (auto simp add: addFile_failed)
  then have 4: "\<forall>acc. addFile pf svc options acc filePath = acc"
    by blast
  have 5: "\<forall>before rest. analyzeFiles pf svc options (before @ filePath # rest)
                          = analyzeFiles pf svc options (before @ rest)"
    by (simp add: analyzeFiles_def skip)
  have 6: "\<forall>dir name. toLowerCase (extname pf name) \<in> {''.c'', ''.cpp''} \<longrightarrow>
            scanEntry pf dir (File name) = Inr [pathJoin pf dir name] \<and>
            mapGet initializeSupportedLanguages (toLowerCase (extname pf name)) = None"
    by (auto simp add: supportedExtensions_def Let_def supported_None)
  from 1 2 3 4 5 6 show ?thesis by blast
qed

theorem unsupported_file_type_rejected_witness:
  "analyzeFile (singleFilePlatform ''src/main.c'' ''int x;'') silentService ''src/main.c'' None
     = Inl (UnsupportedFileType ''.c'') \<and>
   addFileEffects (singleFilePlatform ''src/main.c'' ''int x;'') silentService None ''src/main.c''
     = [ShowFileError (UnsupportedFileType ''.c''),
        WarnFile ''src/main.c'' (UnsupportedFileType ''.c'')] \<and>
   scanEntry (singleFilePlatform ''src/main.c'' ''int x;'') ''src'' (File ''main.c'')
     = Inr [''src/main.c''] \<and>
   analyzeFiles (singleFilePlatform ''src/main.c'' ''int x;'') silentService None [''src/main.c'']
     = ([], [], 0, 0)"
proof -
  let ?pf = "singleFilePlatform ''src/main.c'' ''int x;''"
  have h: "toLowerCase (extname ?pf ''src/main.c'')
             \<notin> set [''.js'', ''.jsx'', ''.ts'', ''.tsx'', ''.py'', ''.java'', ''.go'', ''.rs'']"
    by (simp add: singleFilePlatform_def main_c_ext)
  note t = unsupported_file_type_rejected [OF h, of silentService None]
  have r: "readFile ?pf ''src/main.c'' = Inr ''int x;''"
    by (simp add: singleFilePlatform_def)
  have x: "toLowerCase (extname ?pf ''src/main.c'') = ''.c''"
    by (simp add: singleFilePlatform_def main_c_ext)
  from t r have "analyzeFile ?pf silentService ''src/main.c'' None
      = Inl (UnsupportedFileType (toLowerCase (extname ?pf ''src/main.c'')))"
    by blast
  with x have a: "analyzeFile ?pf silentService ''src/main.c'' None = Inl (UnsupportedFileType ''.c'')"
    by simp
  from t r have "addFileEffects ?pf silentService None ''src/main.c''
      = [ShowFileError (UnsupportedFileType (toLowerCase (extname ?pf ''src/main.c''))),
         WarnFile ''src/main.c'' (UnsupportedFileType (toLowerCase (extname ?pf ''src/main.c'')))]"
    by blast
  with x have e: "addFileEffects ?pf silentService None ''src/main.c''
      = [ShowFileError (UnsupportedFileType ''.c''),
         WarnFile ''src/main.c'' (UnsupportedFileType ''.c'')]"
    by simp
  have n: "toLowerCase (extname ?pf ''main.c'') \<in> {''.c'', ''.cpp''}"
    by (simp add: singleFilePlatform_def main_c_name_ext)
  from t have "toLowerCase (extname ?pf ''main.c'') \<in> {''.c'', ''.cpp''} \<longrightarrow>
      scanEntry ?pf ''src'' (File ''main.c'') = Inr [pathJoin ?pf ''src'' ''main.c'']"
    by blast
  with n have "scanEntry ?pf ''src'' (File ''main.c'') = Inr [pathJoin ?pf ''src'' ''main.c'']"
    by blast
  moreover have "pathJoin ?pf ''src'' ''main.c'' = ''src/main.c''"
    by (simp add: singleFilePlatform_def)
  ultimately have s: "scanEntry ?pf ''src'' (File ''main.c'') = Inr [''src/main.c'']"
    by simp
  have "analyzeFiles ?pf silentService None ([] @ ''src/main.c'' # [])
          = analyzeFiles ?pf silentService None ([] @ [])"
    using t by blast
  then have f: "analyzeFiles ?pf silentService None [''src/main.c''] = ([], [], 0, 0)"
    by (simp add: analyzeFiles_def)
  from a e s f show ?thesis by simp
qed

subsection \<open>The aggregate maintainability index\<close>

lemma round_diff_of_int: "round (x - of_int n :: real) = round x - n"
proof -
  have "x - of_int n + 1 / 2 = (x + 1 / 2) - of_int n" by simp
  then show ?thesis unfolding round_def by (simp only: floor_diff_of_int)
qed

lemma ln3_bounds: "1 \<le> ln (3::real) \<and> ln (3::real) \<le> 2"
proof
  have "exp 1 \<le> (3::real)" by (rule exp_le)
  then have "ln (exp 1) \<le> ln (3::real)" by (subst ln_le_cancel_iff) simp_all
  then show "1 \<le> ln (3::real)" by simp
  have "ln (3::real) \<le> 3 - 1" by (rule ln_le_minus_one) simp
  then show "ln (3::real) \<le> 2" by simp
qed

lemma calculateMaintainabilityIndex_eq:
  assumes "0 < loc"
  shows "calculateMaintainabilityIndex loc cplx issueCount
           = Finite (max 0 (round (171 - 21.4 * ln (real loc) - 0.23 * real cplx)
                            - 2 * int issueCount))"
proof -
  have "171 - 5.2 * ln (real loc) - 0.23 * real cplx - 16.2 * ln (real loc)
          - real issueCount * 2
        = (171 - 21.4 * ln (real loc) - 0.23 * real cplx) - of_int (2 * int issueCount)"
    by simp
  then have "round (171 - 5.2 * ln (real loc) - 0.23 * real cplx - 16.2 * ln (real loc)
               - real issueCount * 2)
             = round (171 - 21.4 * ln (real loc) - 0.23 * real cplx) - 2 * int issueCount"
    by (simp only: round_diff_of_int)
  then show ?thesis
    using assms by (simp add: calculateMaintainabilityIndex_def Let_def)
qed

lemma analyzeFiles_fold:
  "foldl (addFile pf svc options) (xs, ts, l, c) files
     = (xs @ concat (map issues (fileResults pf svc options files)),
        ts @ concat (map (\<lambda>r. case thirdPartyResults r of None \<Rightarrow> [] | Some rs \<Rightarrow> rs)
                       (fileResults pf svc options files)),
        l + sum_list (map (\<lambda>r. linesOfCode (metrics r)) (fileResults pf svc options files)),
        c + sum_list (map (\<lambda>r. complexity (metrics r)) (fileResults pf svc options files)))"
proof (induction files arbitrary: xs ts l c)
  case Nil
  show ?case by (simp add: fileResults_def)
next
  case (Cons f files)
  show ?case
  proof (cases "analyzeFile pf svc f options")
    case (Inl e)
    then show ?thesis
      using Cons.IH [of xs ts l c] by (simp add: addFile_def fileResults_def)
  next
    case (Inr r)
    then show ?thesis
      using Cons.IH [of "xs @ issues r"
          "ts @ (case thirdPartyResults r of None \<Rightarrow> [] | Some rs \<Rightarrow> rs)"
          "l + linesOfCode (metrics r)" "c + complexity (metrics r)"]
      by (simp add: addFile_def fileResults_def)
  qed
qed

lemma a_ts_ext: "toLowerCase (posixExtname ''a.ts'') = ''.ts''"
  by code_simp

lemma proj_a_ts_language:
  "mapGet initializeSupportedLanguages (toLowerCase (posixExtname ''proj/a.ts''))
     = Some \<lparr>languageName = ''TypeScript'', extensions = [''.ts'', ''.tsx''],
             aliases = [''ts'', ''typescript'']\<rparr>"
  by code_simp

lemma single_file_directory:
  "analyzeDirectory (singleFilePlatform ''proj/a.ts'' content) silentService
       (Some [File ''a.ts'']) ''proj'' None
     = Inr \<lparr>summary = generateSummary [], issues = [],
            metrics = \<lparr>linesOfCode = linesOfCode (calculateMetrics content),
                       complexity = complexity (calculateMetrics content),
                       maintainabilityIndex =
                         calculateMaintainabilityIndex (linesOfCode (calculateMetrics content))
                           (complexity (calculateMetrics content)) 0\<rparr>,
            thirdPartyResults = Some []\<rparr>"
proof -
  have "findFiles (singleFilePlatform ''proj/a.ts'' content) ''proj'' (Some [File ''a.ts''])
          = Inr [''proj/a.ts'']"
    by (simp add: findFiles_def singleFilePlatform_def Let_def a_ts_ext supportedExtensions_def)
  moreover have "analyzeFile (singleFilePlatform ''proj/a.ts'' content) silentService ''proj/a.ts'' None
          = Inr \<lparr>summary = generateSummary [], issues = [], metrics = calculateMetrics content,
                 thirdPartyResults = Some []\<rparr>"
    by (simp add: analyzeFile_def singleFilePlatform_def proj_a_ts_language Let_def
          thirdPartyEnabled_def performAIAnalysis_def silentService_def)
  ultimately show ?thesis
    by (simp add: analyzeDirectory_def analyzeFiles_def addFile_def)
qed

lemma threeLines_metrics:
  "linesOfCode (calculateMetrics threeLines) = 3 \<and> complexity (calculateMetrics threeLines) = 1"
proof -
  have "length (filter (\<lambda>line. length (trim line) > 0) (splitLines threeLines)) = 3"
    by code_simp
  moreover have "countComplexity threeLines = 1"
    by code_simp
  ultimately show ?thesis
    by (simp add: calculateMetrics_def Let_def)
qed

lemma oneLine_metrics:
  "linesOfCode (calculateMetrics ''x'') = 1 \<and> complexity (calculateMetrics ''x'') = 1"
proof -
  have "length (filter (\<lambda>line. length (trim line) > 0) (splitLines ''x'')) = 1"
    by code_simp
  moreover have "countComplexity ''x'' = 1"
    by code_simp
  ultimately show ?thesis
    by (simp add: calculateMetrics_def Let_def)
qed

lemma code_index_3_1_0: "\<exists>v. calculateMaintainabilityIndex 3 1 0 = Finite v \<and> v \<le> 149"
proof -
  have "171 - 5.2 * ln (3::real) - 0.23 * 1 - 16.2 * ln 3 - 0 * 2 \<le> 14937 / 100"
    using ln3_bounds by simp
  then have "round (171 - 5.2 * ln (3::real) - 0.23 * 1 - 16.2 * ln 3 - 0 * 2)
               \<le> round (14937 / 100 :: real)"
    by (rule round_mono)
  moreover have "round (14937 / 100 :: real) = 149"
    unfolding round_def by linarith
  ultimately show ?thesis
    by (simp add: calculateMaintainabilityIndex_def Let_def)
qed

lemma spec_index_3_1_0: "160 \<le> specAggregateIndex 3 1 0"
proof -
  have "16037 / 100 \<le> 171 - 5.2 * ln (3::real) - 0.23 * 1"
    using ln3_bounds by simp
  then have "round (16037 / 100 :: real) \<le> round (171 - 5.2 * ln (3::real) - 0.23 * 1)"
    by (rule round_mono)
  moreover have "round (16037 / 100 :: real) = 160"
    unfolding round_def by linarith
  ultimately show ?thesis
    by (simp add: specAggregateIndex_def)
qed

text \<open>
  Claim C4, as stated, fails: the aggregate index has a further term,
  \<open>16.2 \<sqdot> ln(linesOfCode)\<close>, that the per-file formula does not have. For a directory
  with one file of three lines, no keyword and no issue, the totals are 3, 1 and 0; the
  aggregate index is at most 149, and the per-file formula on these totals, less the
  penalty, is at least 160.
\<close>

theorem aggregate_index_counterexample:
  "(case analyzeDirectory (singleFilePlatform ''proj/a.ts'' threeLines) silentService
           (Some [File ''a.ts'']) ''proj'' None of
      Inl e \<Rightarrow> False
    | Inr r \<Rightarrow> linesOfCode (metrics r) = 3 \<and> complexity (metrics r) = 1 \<and> length (issues r) = 0
              \<and> (\<exists>v. maintainabilityIndex (metrics r) = Finite v \<and> v \<le> 149))
   \<and> 160 \<le> specAggregateIndex 3 1 0"
  using code_index_3_1_0 spec_index_3_1_0
  by (simp add: single_file_directory threeLines_metrics)

text \<open>
  Claim C4, amended. For every directory scan whose total \<open>linesOfCode\<close> \<open>L\<close> is
  positive, with total complexity \<open>C\<close> and issue count \<open>N\<close>, the aggregate index is
  \<open>max(0, round(171 - 21.4 \<sqdot> ln(L) - 0.23 \<sqdot> C) - 2 \<sqdot> N)\<close>, that is, the per-file
  formula with the further term \<open>- 16.2 \<sqdot> ln(L)\<close>, reduced by the penalty; \<open>L\<close> and
  \<open>C\<close> are the sums over the files whose analysis succeeded and the issues are theirs
  in file order.
\<close>

theorem directory_maintainability_index:
  assumes "analyzeDirectory pf svc tree dirPath options = Inr r"
    and "0 < linesOfCode (metrics r)"
  shows "maintainabilityIndex (metrics r)
           = Finite (max 0 (round (171 - 21.4 * ln (real (linesOfCode (metrics r)))
                                   - 0.23 * real (complexity (metrics r)))
                            - 2 * int (length (issues r)))) \<and>
         (\<exists>files. findFiles pf dirPath tree = Inr files \<and>
            linesOfCode (metrics r)
              = sum_list (map (\<lambda>r. linesOfCode (metrics r)) (fileResults pf svc options files)) \<and>
            complexity (metrics r)
              = sum_list (map (\<lambda>r. complexity (metrics r)) (fileResults pf svc options files)) \<and>
            issues r = concat (map issues (fileResults pf svc options files)))"
proof -
  from assms(1) obtain files where f: "findFiles pf dirPath tree = Inr files"
    by (auto simp add: analyzeDirectory_def split: sum.splits)
  have t: "analyzeFiles pf svc options files
     = (concat (map issues (fileResults pf svc options files)),
        concat (map (\<lambda>r. case thirdPartyResults r of None \<Rightarrow> [] | Some rs \<Rightarrow> rs)
                       (fileResults pf svc options files)),
        sum_list (map (\<lambda>r. linesOfCode (metrics r)) (fileResults pf svc options files)),
        sum_list (map (\<lambda>r. complexity (metrics r)) (fileResults pf svc options files)))"
    using analyzeFiles_fold [of pf svc options "[]" "[]" 0 0 files]
    by (simp add: analyzeFiles_def)
  have m: "maintainabilityIndex (metrics r)
      = calculateMaintainabilityIndex (linesOfCode (metrics r)) (complexity (metrics r))
          (length (issues r))"
    using assms(1) f t by (auto simp add: analyzeDirectory_def)
  have "linesOfCode (metrics r)
              = sum_list (map (\<lambda>r. linesOfCode (metrics r)) (fileResults pf svc options files)) \<and>
            complexity (metrics r)
              = sum_list (map (\<lambda>r. complexity (metrics r)) (fileResults pf svc options files)) \<and>
            issues r = concat (map issues (fileResults pf svc options files))"
    using assms(1) f t by (auto simp add: analyzeDirectory_def)
  with f m calculateMaintainabilityIndex_eq [OF assms(2)] show ?thesis
    by (simp only:) blast
qed

theorem directory_maintainability_index_witness:
  "\<exists>r. analyzeDirectory (singleFilePlatform ''proj/a.ts'' ''x'') silentService
          (Some [File ''a.ts'']) ''proj'' None = Inr r \<and>
       0 < linesOfCode (metrics r) \<and>
       maintainabilityIndex (metrics r) = Finite 171"
proof -
  let ?r = "\<lparr>summary = generateSummary [], issues = [],
            metrics = \<lparr>linesOfCode = linesOfCode (calculateMetrics ''x''),
                       complexity = complexity (calculateMetrics ''x''),
                       maintainabilityIndex =
                         calculateMaintainabilityIndex (linesOfCode (calculateMetrics ''x''))
                           (complexity (calculateMetrics ''x'')) 0\<rparr>,
            thirdPartyResults = Some []\<rparr>"
  have 1: "analyzeDirectory (singleFilePlatform ''proj/a.ts'' ''x'') silentService
          (Some [File ''a.ts'']) ''proj'' None = Inr ?r"
    by (rule single_file_directory)
  have 2: "0 < linesOfCode (metrics ?r)"
    by (simp add: oneLine_metrics)
  have "round (17077 / 100 :: real) = 171"
    unfolding round_def by linarith
  then have "maintainabilityIndex (metrics ?r) = Finite 171"
    using directory_maintainability_index [OF 1 2] by (simp add: oneLine_metrics)
  with 1 2 show ?thesis by blast
qed

subsection \<open>Setting a provider configuration\<close>

lemma vendorX_lookup: "templateLookup ''vendorX'' = Undefined"
  by code_simp

lemma sonarqube_lookup:
  "templateLookup ''sonarqube''
     = Own \<lparr>templateName = ''SonarQube'', requiredConfig = [''endpoint'', ''apiKey''],
         optionalConfig = [''timeout'', ''retryAttempts'', ''customHeaders'', ''projectKey'']\<rparr>"
  by code_simp

lemma not_a_url: "\<not> absoluteUrl ''not a url''"
  by code_simp

lemma setProviderConfig_invalid:
  assumes "templateLookup pid = Own template"
    and "m \<in> set (errors v)"
    and "validateProviderConfig urlParses pid config = Inr v"
  shows "\<exists>errs. setProviderConfig urlParses mgr pid config = (Inl (ValidationFailed errs), mgr)
           \<and> m \<in> set errs"
proof -
  from assms(1,3) have "isValid v = (length (errors v) = 0)"
    by (auto simp add: validateProviderConfig_def Let_def)
  with assms(2) have "\<not> isValid v" by auto
  with assms(2,3) show ?thesis
    by (auto simp add: setProviderConfig_def)
qed

text \<open>
  Claim C9, as stated, fails at its own example: \<open>vendorX\<close> has no template, so
  \<open>setProviderConfig("vendorX", {endpoint: "not a url"})\<close> fails with the one message
  \<open>Unknown provider: vendorX\<close>, which does not name the field \<open>endpoint\<close>; the
  endpoint is never looked at. The state is unchanged.
\<close>

theorem unknown_provider_error_counterexample:
  "setProviderConfig absoluteUrl emptyManager ''vendorX'' notAUrlConfig
     = (Inl (ValidationFailed [''Unknown provider: vendorX'']), emptyManager)
   \<and> \<not> strIncludes ''Unknown provider: vendorX'' ''endpoint''"
proof -
  have "\<not> strIncludes ''Unknown provider: vendorX'' ''endpoint''"
    by code_simp
  then show ?thesis
    by (simp add: setProviderConfig_def validateProviderConfig_def vendorX_lookup)
qed

text \<open>
  Claim C9, amended. \<open>setProviderConfig\<close> validates and is atomic: whenever it fails,
  the state of the manager is the state before the call, and it fails either with the
  messages of \<open>validateProviderConfig\<close> (at least one) or with a type error; when it
  succeeds, validation found nothing and the state differs only in the entry, set to the
  new configuration, of the provider id. For an id without a template it fails with
  the one message \<open>Unknown provider: <id>\<close>. For an id with a template it fails, with
  a message for the check among its messages, when the endpoint is a non-empty string
  that is not a well-formed URL, when the timeout is a number other than 0 outside
  1000..300000, when the retry attempts are outside 0..10, and when a required field is
  missing or empty.
\<close>

theorem setProviderConfig_validated_atomic:
  "(case setProviderConfig urlParses mgr pid config of
      (Inl e, mgr') \<Rightarrow>
        mgr' = mgr \<and>
        (e = TypeError \<or>
         (\<exists>errs. e = ValidationFailed errs \<and> errs \<noteq> [] \<and>
            validateProviderConfig urlParses pid config = Inr \<lparr>isValid = False, errors = errs\<rparr>))
    | (Inr u, mgr') \<Rightarrow>
        mgr' = mgr\<lparr>mgrProviders := mapSet (mgrProviders mgr) pid config\<rparr> \<and>
        validateProviderConfig urlParses pid config = Inr \<lparr>isValid = True, errors = []\<rparr>)
   \<and> (templateLookup pid = Undefined \<longrightarrow>
        setProviderConfig urlParses mgr pid config
          = (Inl (ValidationFailed [''Unknown provider: '' @ pid]), mgr))
   \<and> (\<forall>template. templateLookup pid = Own template \<longrightarrow>
        (\<forall>e. endpoint config = Some e \<and> e \<noteq> [] \<and> \<not> urlParses e \<longrightarrow>
           (\<exists>errs. setProviderConfig urlParses mgr pid config = (Inl (ValidationFailed errs), mgr)
              \<and> ''Invalid endpoint URL format'' \<in> set errs))
      \<and> (\<forall>t. timeout config = Some t \<and> t \<noteq> 0 \<and> (t < 1000 \<or> 300000 < t) \<longrightarrow>
           (\<exists>errs. setProviderConfig urlParses mgr pid config = (Inl (ValidationFailed errs), mgr)
              \<and> ''Timeout must be between 1000ms and 300000ms'' \<in> set errs))
      \<and> (\<forall>n. retryAttempts config = Some n \<and> (n < 0 \<or> 10 < n) \<longrightarrow>
           (\<exists>errs. setProviderConfig urlParses mgr pid config = (Inl (ValidationFailed errs), mgr)
              \<and> ''Retry attempts must be between 0 and 10'' \<in> set errs))
      \<and> (\<forall>k. k \<in> set (requiredConfig template) \<and> \<not> configTruthy config k \<longrightarrow>
           (\<exists>errs. setProviderConfig urlParses mgr pid config = (Inl (ValidationFailed errs), mgr)
              \<and> (''Missing required configuration: '' @ k) \<in> set errs)))"
proof (intro conjI allI impI)
  show "case setProviderConfig urlParses mgr pid config of
      (Inl e, mgr') \<Rightarrow>
        mgr' = mgr \<and>
        (e = TypeError \<or>
         (\<exists>errs. e = ValidationFailed errs \<and> errs \<noteq> [] \<and>
            validateProviderConfig urlParses pid config = Inr \<lparr>isValid = False, errors = errs\<rparr>))
    | (Inr u, mgr') \<Rightarrow>
        mgr' = mgr\<lparr>mgrProviders := mapSet (mgrProviders mgr) pid config\<rparr> \<and>
        validateProviderConfig urlParses pid config = Inr \<lparr>isValid = True, errors = []\<rparr>"
    by (cases "templateLookup pid")
       (simp_all add: setProviderConfig_def validateProviderConfig_def Let_def)
next
  assume "templateLookup pid = Undefined"
  then show "setProviderConfig urlParses mgr pid config
          = (Inl (ValidationFailed [''Unknown provider: '' @ pid]), mgr)"
    by (simp add: setProviderConfig_def validateProviderConfig_def)
next
  fix template e
  assume t: "templateLookup pid = Own template"
    and e: "endpoint config = Some e \<and> e \<noteq> [] \<and> \<not> urlParses e"
  obtain v where v: "validateProviderConfig urlParses pid config = Inr v"
    using t by (simp add: validateProviderConfig_def Let_def)
  with t e have "''Invalid endpoint URL format'' \<in> set (errors v)"
    by (auto simp add: validateProviderConfig_def Let_def)
  from setProviderConfig_invalid [OF t this v]
  show "\<exists>errs. setProviderConfig urlParses mgr pid config = (Inl (ValidationFailed errs), mgr)
              \<and> ''Invalid endpoint URL format'' \<in> set errs" .
next
  fix template t
  assume tl: "templateLookup pid = Own template"
    and t: "timeout config = Some t \<and> t \<noteq> 0 \<and> (t < 1000 \<or> 300000 < t)"
  obtain v where v: "validateProviderConfig urlParses pid config = Inr v"
    using tl by (simp add: validateProviderConfig_def Let_def)
  with tl t have "''Timeout must be between 1000ms and 300000ms'' \<in> set (errors v)"
    by (auto simp add: validateProviderConfig_def Let_def)
  from setProviderConfig_invalid [OF tl this v]
  show "\<exists>errs. setProviderConfig urlParses mgr pid config = (Inl (ValidationFailed errs), mgr)
              \<and> ''Timeout must be between 1000ms and 300000ms'' \<in> set errs" .
next
  fix template n
  assume tl: "templateLookup pid = Own template"
    and n: "retryAttempts config = Some n \<and> (n < 0 \<or> 10 < n)"
  obtain v where v: "validateProviderConfig urlParses pid config = Inr v"
    using tl by (simp add: validateProviderConfig_def Let_def)
  with tl n have "''Retry attempts must be between 0 and 10'' \<in> set (errors v)"
    by (auto simp add: validateProviderConfig_def Let_def)
  from setProviderConfig_invalid [OF tl this v]
  show "\<exists>errs. setProviderConfig urlParses mgr pid config = (Inl (ValidationFailed errs), mgr)
              \<and> ''Retry attempts must be between 0 and 10'' \<in> set errs" .
next
  fix template k
  assume tl: "templateLookup pid = Own template"
    and k: "k \<in> set (requiredConfig template) \<and> \<not> configTruthy config k"
  obtain v where v: "validateProviderConfig urlParses pid config = Inr v"
    using tl by (simp add: validateProviderConfig_def Let_def)
  with tl k have "(''Missing required configuration: '' @ k) \<in> set (errors v)"
    by (auto simp add: validateProviderConfig_def Let_def)
  from setProviderConfig_invalid [OF tl this v]
  show "\<exists>errs. setProviderConfig urlParses mgr pid config = (Inl (ValidationFailed errs), mgr)
              \<and> (''Missing required configuration: '' @ k) \<in> set errs" .
qed

theorem setProviderConfig_validated_atomic_witness:
  "\<exists>errs. setProviderConfig absoluteUrl emptyManager ''sonarqube'' notAUrlConfig
            = (Inl (ValidationFailed errs), emptyManager)
          \<and> ''Invalid endpoint URL format'' \<in> set errs"
proof -
  have "endpoint notAUrlConfig = Some ''not a url'' \<and> ''not a url'' \<noteq> []
          \<and> \<not> absoluteUrl ''not a url''"
    using not_a_url by (simp add: notAUrlConfig_def)
  with sonarqube_lookup
    setProviderConfig_validated_atomic [where urlParses = absoluteUrl and mgr = emptyManager
      and pid = "''sonarqube''" and config = notAUrlConfig]
  show ?thesis by blast
qed

end
